theory Spec2Isabelle
  imports Main "HOL-Library.Word" "HOL-Library.Monad_Syntax"
begin

unbundle bit_operations_syntax

section \<open>Tokens (token.h)\<close>

text \<open>
  The token types of \<^verbatim>\<open>cwTokenType\<close>, in the order of the enum, so \<open>TOKEN_EOF\<close> is the
  zero value. \<open>TOKEN_ERROR\<close> is not in the header among the sources, but
  \<^verbatim>\<open>cw_syntax_error_at\<close> tests for it, so it is added last.
\<close>

datatype cwTokenType =
    TOKEN_EOF
  | TOKEN_LPAREN | TOKEN_RPAREN
  | TOKEN_LBRACE | TOKEN_RBRACE
  | TOKEN_LBRACKET | TOKEN_RBRACKET
  | TOKEN_PERIOD
  | TOKEN_COMMA
  | TOKEN_COLON
  | TOKEN_SEMICOLON
  | TOKEN_PLUS
  | TOKEN_MINUS
  | TOKEN_ASTERISK
  | TOKEN_SLASH
  | TOKEN_EXCLAMATION
  | TOKEN_ASSIGN
  | TOKEN_EQ | TOKEN_NOTEQ
  | TOKEN_LT | TOKEN_LTEQ
  | TOKEN_GT | TOKEN_GTEQ
  | TOKEN_IDENTIFIER
  | TOKEN_INTEGER
  | TOKEN_NULL
  | TOKEN_TRUE
  | TOKEN_FALSE
  | TOKEN_AND
  | TOKEN_OR
  | TOKEN_IF
  | TOKEN_ELSE
  | TOKEN_WHILE
  | TOKEN_FOR
  | TOKEN_LET
  | TOKEN_MUT
  | TOKEN_FUNC
  | TOKEN_RETURN
  | TOKEN_ERROR

datatype cwTokenMod = TOKENMOD_NONE | TOKENMOD_BIN | TOKENMOD_OCT | TOKENMOD_HEX

text \<open>
  A token points into the NUL-terminated source text with \<^verbatim>\<open>start\<close> and \<^verbatim>\<open>end\<close>.
  A pointer into the text is modelled as the bytes from it up to the terminator, so
  \<^verbatim>\<open>end - start\<close> is \<open>length (start t) - length (end_tok t)\<close> and the lexeme is that many
  bytes of \<open>start t\<close>. The fields \<^verbatim>\<open>type\<close>, \<^verbatim>\<open>mod\<close> and \<^verbatim>\<open>end\<close> carry a suffix.
\<close>

record cwToken =
  type_tok :: cwTokenType
  mod_tok :: cwTokenMod
  start :: string
  end_tok :: string
  line :: int

definition token_len :: "cwToken \<Rightarrow> int" where
  "token_len t = int (length (start t)) - int (length (end_tok t))"

section \<open>Values, chunks and the runtime record\<close>

type_synonym u8 = "8 word"
type_synonym double = "64 word"
type_synonym ref = nat

text \<open>
  The value cases are the ones \<^verbatim>\<open>cw_print_value\<close> switches over. A double is kept as its
  64 bits; a heap object is referred to by its position in the object store.
\<close>

datatype cwValue =
    VAL_NULL
  | VAL_BOOL bool
  | VAL_INT "32 word"
  | VAL_FLOAT double
  | VAL_OBJECT ref

text \<open>
  A chunk. The arrays \<^verbatim>\<open>bytes\<close> and \<^verbatim>\<open>lines\<close> are only ever written at index \<^verbatim>\<open>len\<close>
  together with \<^verbatim>\<open>len++\<close> (or patched below \<^verbatim>\<open>len\<close>), so they are the lists of the
  written slots and \<^verbatim>\<open>chunk->len\<close> is \<open>length (bytes c)\<close>. The capacity bookkeeping
  (\<^verbatim>\<open>cap\<close>, \<^verbatim>\<open>CW_GROW_CAPACITY\<close>, \<^verbatim>\<open>CW_GROW_ARRAY\<close>) only makes room for the slot
  written next and is not part of the model. One revision of \<^verbatim>\<open>cw_make_constant\<close> writes
  slot \<^verbatim>\<open>const_len\<close> without counting it, so the constants array is a map from the
  written slots to their values, next to \<^verbatim>\<open>const_len\<close>.
\<close>

record cwChunk =
  bytes :: "u8 list"
  lines :: "int list"
  constants :: "nat \<rightharpoonup> cwValue"
  const_len :: nat

record cwLocal =
  name :: cwToken
  depth :: int

text \<open>
  What \<^verbatim>\<open>printf\<close> and \<^verbatim>\<open>fprintf\<close> are called with: the format and its arguments. The
  two output streams are kept in the runtime record as the calls made so far.
\<close>

datatype printf_arg = ArgInt int | ArgDouble double | ArgStr string

datatype printf_call = Printf string "printf_arg list"

text \<open>
  The runtime. \<open>stack\<close> holds the slots below \<^verbatim>\<open>stack_index\<close>, bottom first;
  \<open>locals\<close> the slots below \<^verbatim>\<open>local_count\<close>. \<open>objects\<close> is the store of the string
  objects (a \<open>ref\<close> is a position in it) and \<open>strings\<close> the intern table, from bytes to
  the canonical object.
\<close>

record cwRuntime =
  chunk :: cwChunk
  ip :: nat
  stack :: "cwValue list"
  objects :: "string list"
  strings :: "string \<rightharpoonup> ref"
  previous :: cwToken
  current :: cwToken
  locals :: "cwLocal list"
  scope_depth :: int
  error :: bool
  panic :: bool
  stdout :: "printf_call list"
  stderr :: "printf_call list"

abbreviation stack_index :: "cwRuntime \<Rightarrow> nat" where
  "stack_index cw \<equiv> length (stack cw)"

abbreviation local_count :: "cwRuntime \<Rightarrow> nat" where
  "local_count cw \<equiv> length (locals cw)"

definition UINT8_MAX :: int where
  "UINT8_MAX = 255"

definition UINT16_MAX :: int where
  "UINT16_MAX = 65535"

definition printf :: "cwRuntime \<Rightarrow> string \<Rightarrow> printf_arg list \<Rightarrow> cwRuntime" where
  "printf cw format args = cw\<lparr>stdout := stdout cw @ [Printf format args]\<rparr>"

definition fprintf_stderr :: "cwRuntime \<Rightarrow> string \<Rightarrow> printf_arg list \<Rightarrow> cwRuntime" where
  "fprintf_stderr cw format args = cw\<lparr>stderr := stderr cw @ [Printf format args]\<rparr>"

section \<open>Syntax errors (debug.c)\<close>

definition cw_syntax_error_at :: "cwRuntime \<Rightarrow> cwToken \<Rightarrow> string \<Rightarrow> cwRuntime" where
  "cw_syntax_error_at cw token msg =
     (if panic cw then cw
      else
        let cw1 = cw\<lparr>panic := True\<rparr>;
            cw2 = fprintf_stderr cw1 ''[line %d] Error'' [ArgInt (line token)];
            cw3 = (if type_tok token = TOKEN_EOF then fprintf_stderr cw2 '' at end'' []
                   else if type_tok token \<noteq> TOKEN_ERROR
                   then fprintf_stderr cw2 ('' at '' @ [CHR 0x27] @ ''%.*s'' @ [CHR 0x27])
                          [ArgInt (token_len token), ArgStr (start token)]
                   else cw2);
            cw4 = fprintf_stderr cw3 ('': %s'' @ [CHR 0x0A]) [ArgStr msg]
        in cw4\<lparr>error := True\<rparr>)"

definition cw_syntax_error :: "cwRuntime \<Rightarrow> string \<Rightarrow> cwRuntime" where
  "cw_syntax_error cw msg = cw_syntax_error_at cw (previous cw) msg"

section \<open>The virtual machine\<close>

datatype InterpretResult = INTERPRET_OK | INTERPRET_COMPILE_ERROR | INTERPRET_RUNTIME_ERROR

text \<open>
  The opcodes are bytes. The header that numbers them is not among the sources; they are
  numbered here in the order \<^verbatim>\<open>cw_disassemble_instruction\<close> lists them. The proofs use
  only that they are distinct.
\<close>

definition OP_CONSTANT :: u8 where "OP_CONSTANT = 0"
definition OP_NULL :: u8 where "OP_NULL = 1"
definition OP_TRUE :: u8 where "OP_TRUE = 2"
definition OP_FALSE :: u8 where "OP_FALSE = 3"
definition OP_POP :: u8 where "OP_POP = 4"
definition OP_DEF_GLOBAL :: u8 where "OP_DEF_GLOBAL = 5"
definition OP_SET_GLOBAL :: u8 where "OP_SET_GLOBAL = 6"
definition OP_GET_GLOBAL :: u8 where "OP_GET_GLOBAL = 7"
definition OP_EQ :: u8 where "OP_EQ = 8"
definition OP_NOTEQ :: u8 where "OP_NOTEQ = 9"
definition OP_LT :: u8 where "OP_LT = 10"
definition OP_GT :: u8 where "OP_GT = 11"
definition OP_LTEQ :: u8 where "OP_LTEQ = 12"
definition OP_GTEQ :: u8 where "OP_GTEQ = 13"
definition OP_ADD :: u8 where "OP_ADD = 14"
definition OP_SUBTRACT :: u8 where "OP_SUBTRACT = 15"
definition OP_MULTIPLY :: u8 where "OP_MULTIPLY = 16"
definition OP_DIVIDE :: u8 where "OP_DIVIDE = 17"
definition OP_NOT :: u8 where "OP_NOT = 18"
definition OP_NEGATE :: u8 where "OP_NEGATE = 19"
definition OP_PRINT :: u8 where "OP_PRINT = 20"
definition OP_RETURN :: u8 where "OP_RETURN = 21"

lemmas opcode_defs =
  OP_CONSTANT_def OP_NULL_def OP_TRUE_def OP_FALSE_def OP_POP_def OP_DEF_GLOBAL_def
  OP_SET_GLOBAL_def OP_GET_GLOBAL_def OP_EQ_def OP_NOTEQ_def OP_LT_def OP_GT_def
  OP_LTEQ_def OP_GTEQ_def OP_ADD_def OP_SUBTRACT_def OP_MULTIPLY_def OP_DIVIDE_def
  OP_NOT_def OP_NEGATE_def OP_PRINT_def OP_RETURN_def

text \<open>
  Modelled from the spec: the header defining \<^verbatim>\<open>CW_STACK_MAX\<close> is not among the sources;
  the spec gives the value stack the capacity 256.
\<close>

definition CW_STACK_MAX :: nat where
  "CW_STACK_MAX = 256"

text \<open>
  Modelled from the spec: the header with the value macros is not among the sources. The
  spec's Number is the 64-bit double, which is the \<open>VAL_FLOAT\<close> case of the printer, and
  its only object is the string.
\<close>

definition MAKE_NULL :: cwValue where "MAKE_NULL = VAL_NULL"
definition MAKE_BOOL :: "bool \<Rightarrow> cwValue" where "MAKE_BOOL b = VAL_BOOL b"
definition MAKE_NUMBER :: "double \<Rightarrow> cwValue" where "MAKE_NUMBER d = VAL_FLOAT d"
definition MAKE_OBJECT :: "ref \<Rightarrow> cwValue" where "MAKE_OBJECT r = VAL_OBJECT r"

fun IS_NUMBER :: "cwValue \<Rightarrow> bool" where
  "IS_NUMBER (VAL_FLOAT d) = True"
| "IS_NUMBER v = False"

fun IS_STRING :: "cwValue \<Rightarrow> bool" where
  "IS_STRING (VAL_OBJECT r) = True"
| "IS_STRING v = False"

text \<open>Reading the member of the union that the tag does not name has no defined result.\<close>

fun AS_NUMBER :: "cwValue \<Rightarrow> double option" where
  "AS_NUMBER (VAL_FLOAT d) = Some d"
| "AS_NUMBER v = None"

fun AS_STRING :: "cwValue \<Rightarrow> ref option" where
  "AS_STRING (VAL_OBJECT r) = Some r"
| "AS_STRING v = None"

text \<open>
  Modelled from the spec: \<^verbatim>\<open>cw_values_equal\<close> and \<^verbatim>\<open>cw_is_falsey\<close> are not among the
  sources. Values are equal when they have the same tag and the same payload, numbers
  bit for bit; exactly Null and Bool(false) are falsey.
\<close>

definition cw_values_equal :: "cwValue \<Rightarrow> cwValue \<Rightarrow> bool" where
  "cw_values_equal a b = (a = b)"

fun cw_is_falsey :: "cwValue \<Rightarrow> bool" where
  "cw_is_falsey VAL_NULL = True"
| "cw_is_falsey (VAL_BOOL b) = (\<not> b)"
| "cw_is_falsey v = False"

text \<open>
  The arithmetic of C on doubles (\<^verbatim>\<open>+ - * /\<close>, unary minus and the four comparisons) is
  that of the machine; the interpreter takes it as a parameter.
\<close>

record fpu =
  fp_add :: "double \<Rightarrow> double \<Rightarrow> double"
  fp_sub :: "double \<Rightarrow> double \<Rightarrow> double"
  fp_mul :: "double \<Rightarrow> double \<Rightarrow> double"
  fp_div :: "double \<Rightarrow> double \<Rightarrow> double"
  fp_neg :: "double \<Rightarrow> double"
  fp_lt :: "double \<Rightarrow> double \<Rightarrow> bool"
  fp_gt :: "double \<Rightarrow> double \<Rightarrow> bool"
  fp_le :: "double \<Rightarrow> double \<Rightarrow> bool"
  fp_ge :: "double \<Rightarrow> double \<Rightarrow> bool"

subsection \<open>Stack operations\<close>

definition cw_reset_stack :: "cwRuntime \<Rightarrow> cwRuntime" where
  "cw_reset_stack cw = cw\<lparr>stack := []\<rparr>"

text \<open>
  \<^verbatim>\<open>cw_runtime_error\<close> prints the message, a newline (\<^verbatim>\<open>fputs\<close>, recorded as a call
  without arguments) and the line of the instruction just read, then resets the stack.
  \<open>None\<close> stands for a read outside the \<^verbatim>\<open>lines\<close> array.
\<close>

definition cw_runtime_error :: "cwRuntime \<Rightarrow> string \<Rightarrow> printf_arg list \<Rightarrow> cwRuntime option" where
  "cw_runtime_error cw format args =
     (let cw1 = fprintf_stderr cw format args;
          cw2 = fprintf_stderr cw1 [CHR 0x0A] []
      in if 1 \<le> ip cw \<and> ip cw - 1 < length (lines (chunk cw))
         then let instruction = ip cw - 1;
                  ln = lines (chunk cw) ! instruction;
                  cw3 = fprintf_stderr cw2 (''[line %d] in script'' @ [CHR 0x0A]) [ArgInt ln]
              in Some (cw_reset_stack cw3)
         else None)"

definition cw_push_stack :: "cwRuntime \<Rightarrow> cwValue \<Rightarrow> cwRuntime option" where
  "cw_push_stack cw val =
     (if stack_index cw \<ge> CW_STACK_MAX
      then cw_runtime_error cw ''Stack overflow'' []
      else Some (cw\<lparr>stack := stack cw @ [val]\<rparr>))"

text \<open>Popping or peeking below the bottom of the stack reads outside the array: \<open>None\<close>.\<close>

definition cw_pop_stack :: "cwRuntime \<Rightarrow> (cwValue \<times> cwRuntime) option" where
  "cw_pop_stack cw =
     (if stack_index cw \<ge> 1
      then Some (stack cw ! (stack_index cw - 1), cw\<lparr>stack := butlast (stack cw)\<rparr>)
      else None)"

definition cw_peek_stack :: "cwRuntime \<Rightarrow> nat \<Rightarrow> cwValue option" where
  "cw_peek_stack cw distance =
     (if stack_index cw \<ge> 1 + distance
      then Some (stack cw ! (stack_index cw - 1 - distance))
      else None)"

subsection \<open>Strings and printing\<close>

text \<open>
  Modelled from the spec: \<^verbatim>\<open>cw_str_concat\<close> is not among the sources. The spec has it
  copy both byte runs and look the result up in the intern table: if a match exists the
  canonical object is used, and otherwise the new object is the only one registered.
  \<open>None\<close> stands for following a pointer that is not an object of the store.
\<close>

definition cw_str_concat :: "cwRuntime \<Rightarrow> ref \<Rightarrow> ref \<Rightarrow> (ref \<times> cwRuntime) option" where
  "cw_str_concat cw a b =
     (if a < length (objects cw) \<and> b < length (objects cw)
      then let chars = objects cw ! a @ objects cw ! b
           in (case strings cw chars of
                 Some interned \<Rightarrow> Some (interned, cw)
               | None \<Rightarrow>
                   let r = length (objects cw)
                   in Some (r, cw\<lparr>objects := objects cw @ [chars],
                                   strings := (strings cw)(chars \<mapsto> r)\<rparr>))
      else None)"

definition cw_print_object :: "cwRuntime \<Rightarrow> cwValue \<Rightarrow> cwRuntime option" where
  "cw_print_object cw val =
     (case val of
        VAL_OBJECT r \<Rightarrow>
          (if r < length (objects cw) then Some (printf cw ''%s'' [ArgStr (objects cw ! r)])
           else None)
      | _ \<Rightarrow> None)"

definition cw_print_value :: "cwRuntime \<Rightarrow> cwValue \<Rightarrow> cwRuntime option" where
  "cw_print_value cw val =
     (case val of
        VAL_NULL \<Rightarrow> Some (printf cw ''null'' [])
      | VAL_BOOL b \<Rightarrow> Some (printf cw (if b then ''true'' else ''false'') [])
      | VAL_INT i \<Rightarrow> Some (printf cw ''%d'' [ArgInt (sint i)])
      | VAL_FLOAT d \<Rightarrow> Some (printf cw ''%g'' [ArgDouble d])
      | VAL_OBJECT r \<Rightarrow> cw_print_object cw val)"

subsection \<open>The dispatch loop\<close>

text \<open>
  One turn of the loop of \<^verbatim>\<open>cw_run\<close> either goes on to the next turn (\<^verbatim>\<open>break\<close> out of
  the switch) or returns from \<^verbatim>\<open>cw_run\<close>. \<open>None\<close> stands for a read outside an array.
\<close>

datatype step = Continue cwRuntime | Return InterpretResult cwRuntime

definition READ_BYTE :: "cwRuntime \<Rightarrow> (u8 \<times> cwRuntime) option" where
  "READ_BYTE cw =
     (if ip cw < length (bytes (chunk cw))
      then Some (bytes (chunk cw) ! ip cw, cw\<lparr>ip := ip cw + 1\<rparr>)
      else None)"

definition READ_CONSTANT :: "cwRuntime \<Rightarrow> (cwValue \<times> cwRuntime) option" where
  "READ_CONSTANT cw =
     do { (idx, cw1) \<leftarrow> READ_BYTE cw;
          constant \<leftarrow> constants (chunk cw1) (unat idx);
          Some (constant, cw1) }"

text \<open>The two statements \<^verbatim>\<open>cw_runtime_error(cw, msg); return INTERPRET_RUNTIME_ERROR;\<close>\<close>

definition runtime_error_return :: "cwRuntime \<Rightarrow> string \<Rightarrow> step option" where
  "runtime_error_return cw msg =
     do { cw1 \<leftarrow> cw_runtime_error cw msg [];
          Some (Return INTERPRET_RUNTIME_ERROR cw1) }"

text \<open>
  The macro \<^verbatim>\<open>BINARY_OP(value_type, op)\<close>; \<open>f a b\<close> is \<^verbatim>\<open>value_type(a op b)\<close>. The second
  operand of \<^verbatim>\<open>||\<close> is looked at only when the first is false.
\<close>

definition BINARY_OP :: "(double \<Rightarrow> double \<Rightarrow> cwValue) \<Rightarrow> cwRuntime \<Rightarrow> step option" where
  "BINARY_OP f cw =
     do { p0 \<leftarrow> cw_peek_stack cw 0;
          if \<not> IS_NUMBER p0 then runtime_error_return cw ''Operands must be numbers.''
          else do {
            p1 \<leftarrow> cw_peek_stack cw 1;
            if \<not> IS_NUMBER p1 then runtime_error_return cw ''Operands must be numbers.''
            else do {
              (vb, cw1) \<leftarrow> cw_pop_stack cw;
              b \<leftarrow> AS_NUMBER vb;
              (va, cw2) \<leftarrow> cw_pop_stack cw1;
              a \<leftarrow> AS_NUMBER va;
              cw3 \<leftarrow> cw_push_stack cw2 (f a b);
              Some (Continue cw3) } } }"

text \<open>
  The condition \<^verbatim>\<open>IS_X(cw_peek_stack(cw, 0)) && IS_X(cw_peek_stack(cw, 1))\<close>: the second
  slot is read only when the first passes the test.
\<close>

definition both_on_top :: "(cwValue \<Rightarrow> bool) \<Rightarrow> cwRuntime \<Rightarrow> bool option" where
  "both_on_top is_x cw =
     do { p0 \<leftarrow> cw_peek_stack cw 0;
          if is_x p0 then do { p1 \<leftarrow> cw_peek_stack cw 1; Some (is_x p1) }
          else Some False }"

text \<open>The case \<^verbatim>\<open>OP_ADD\<close>: strings are tried first, then numbers.\<close>

definition op_add :: "fpu \<Rightarrow> cwRuntime \<Rightarrow> step option" where
  "op_add fp cw =
     do { strs \<leftarrow> both_on_top IS_STRING cw;
          if strs then do {
            (vb, cw1) \<leftarrow> cw_pop_stack cw;
            b \<leftarrow> AS_STRING vb;
            (va, cw2) \<leftarrow> cw_pop_stack cw1;
            a \<leftarrow> AS_STRING va;
            (r, cw3) \<leftarrow> cw_str_concat cw2 a b;
            cw4 \<leftarrow> cw_push_stack cw3 (MAKE_OBJECT r);
            Some (Continue cw4) }
          else do {
            nums \<leftarrow> both_on_top IS_NUMBER cw;
            if nums then do {
              (vb, cw1) \<leftarrow> cw_pop_stack cw;
              b \<leftarrow> AS_NUMBER vb;
              (va, cw2) \<leftarrow> cw_pop_stack cw1;
              a \<leftarrow> AS_NUMBER va;
              cw3 \<leftarrow> cw_push_stack cw2 (MAKE_NUMBER (fp_add fp a b));
              Some (Continue cw3) }
            else runtime_error_return cw ''Operands must be two numbers or two strings.'' } }"

definition op_negate :: "fpu \<Rightarrow> cwRuntime \<Rightarrow> step option" where
  "op_negate fp cw =
     do { p0 \<leftarrow> cw_peek_stack cw 0;
          if \<not> IS_NUMBER p0 then runtime_error_return cw ''Operand must be a number.''
          else do {
            (v, cw1) \<leftarrow> cw_pop_stack cw;
            a \<leftarrow> AS_NUMBER v;
            cw2 \<leftarrow> cw_push_stack cw1 (MAKE_NUMBER (fp_neg fp a));
            Some (Continue cw2) } }"

definition cw_run_step :: "fpu \<Rightarrow> cwRuntime \<Rightarrow> step option" where
  "cw_run_step fp cw0 =
     do { (instruction, cw) \<leftarrow> READ_BYTE cw0;
          if instruction = OP_CONSTANT then do {
            (constant, cw1) \<leftarrow> READ_CONSTANT cw;
            cw2 \<leftarrow> cw_push_stack cw1 constant;
            Some (Continue cw2) }
          else if instruction = OP_NULL then map_option Continue (cw_push_stack cw MAKE_NULL)
          else if instruction = OP_TRUE then map_option Continue (cw_push_stack cw (MAKE_BOOL True))
          else if instruction = OP_FALSE then map_option Continue (cw_push_stack cw (MAKE_BOOL False))
          else if instruction = OP_POP then do {
            (v, cw1) \<leftarrow> cw_pop_stack cw;
            Some (Continue cw1) }
          else if instruction = OP_EQ \<or> instruction = OP_NOTEQ then do {
            (b, cw1) \<leftarrow> cw_pop_stack cw;
            (a, cw2) \<leftarrow> cw_pop_stack cw1;
            let eq = cw_values_equal a b;
            cw3 \<leftarrow> cw_push_stack cw2 (MAKE_BOOL (if instruction = OP_EQ then eq else \<not> eq));
            Some (Continue cw3) }
          else if instruction = OP_LT then BINARY_OP (\<lambda>a b. MAKE_BOOL (fp_lt fp a b)) cw
          else if instruction = OP_GT then BINARY_OP (\<lambda>a b. MAKE_BOOL (fp_gt fp a b)) cw
          else if instruction = OP_LTEQ then BINARY_OP (\<lambda>a b. MAKE_BOOL (fp_le fp a b)) cw
          else if instruction = OP_GTEQ then BINARY_OP (\<lambda>a b. MAKE_BOOL (fp_ge fp a b)) cw
          else if instruction = OP_ADD then op_add fp cw
          else if instruction = OP_SUBTRACT then BINARY_OP (\<lambda>a b. MAKE_NUMBER (fp_sub fp a b)) cw
          else if instruction = OP_MULTIPLY then BINARY_OP (\<lambda>a b. MAKE_NUMBER (fp_mul fp a b)) cw
          else if instruction = OP_DIVIDE then BINARY_OP (\<lambda>a b. MAKE_NUMBER (fp_div fp a b)) cw
          else if instruction = OP_NOT then do {
            (v, cw1) \<leftarrow> cw_pop_stack cw;
            cw2 \<leftarrow> cw_push_stack cw1 (MAKE_BOOL (cw_is_falsey v));
            Some (Continue cw2) }
          else if instruction = OP_NEGATE then op_negate fp cw
          else if instruction = OP_PRINT then do {
            (v, cw1) \<leftarrow> cw_pop_stack cw;
            cw2 \<leftarrow> cw_print_value cw1 v;
            Some (Continue (printf cw2 [CHR 0x0A] [])) }
          else if instruction = OP_RETURN then Some (Return INTERPRET_OK cw)
          else Some (Continue cw) }"

text \<open>
  Every turn that goes on has read at least one byte of the same chunk, so the loop
  comes to an end: by \<^verbatim>\<open>OP_RETURN\<close>, by a runtime error that returns, or by reading past
  the last byte.
\<close>

lemma cw_runtime_error_frame:
  "cw_runtime_error cw format args = Some cw' \<Longrightarrow> ip cw' = ip cw \<and> chunk cw' = chunk cw"
  by (auto simp: cw_runtime_error_def cw_reset_stack_def fprintf_stderr_def Let_def
      split: if_splits)

lemma cw_push_stack_frame:
  "cw_push_stack cw v = Some cw' \<Longrightarrow> ip cw' = ip cw \<and> chunk cw' = chunk cw"
  by (auto simp: cw_push_stack_def dest: cw_runtime_error_frame split: if_splits)

lemma cw_pop_stack_frame:
  "cw_pop_stack cw = Some (v, cw') \<Longrightarrow> ip cw' = ip cw \<and> chunk cw' = chunk cw"
  by (auto simp: cw_pop_stack_def split: if_splits)

lemma cw_str_concat_frame:
  "cw_str_concat cw a b = Some (r, cw') \<Longrightarrow> ip cw' = ip cw \<and> chunk cw' = chunk cw"
  by (auto simp: cw_str_concat_def Let_def split: if_splits option.splits)

lemma cw_print_value_frame:
  "cw_print_value cw v = Some cw' \<Longrightarrow> ip cw' = ip cw \<and> chunk cw' = chunk cw"
  by (auto simp: cw_print_value_def cw_print_object_def printf_def
      split: cwValue.splits if_splits)

lemma READ_BYTE_frame:
  "READ_BYTE cw = Some (b, cw') \<Longrightarrow>
     ip cw < length (bytes (chunk cw)) \<and> ip cw' = ip cw + 1 \<and> chunk cw' = chunk cw"
  by (auto simp: READ_BYTE_def split: if_splits)

lemma READ_CONSTANT_frame:
  "READ_CONSTANT cw = Some (v, cw') \<Longrightarrow>
     ip cw < length (bytes (chunk cw)) \<and> ip cw' = ip cw + 1 \<and> chunk cw' = chunk cw"
  by (auto simp: READ_CONSTANT_def dest: READ_BYTE_frame split: Option.bind_splits)

lemma BINARY_OP_frame:
  "BINARY_OP f cw = Some (Continue cw') \<Longrightarrow> ip cw' = ip cw \<and> chunk cw' = chunk cw"
  by (auto simp: BINARY_OP_def runtime_error_return_def
      dest!: cw_push_stack_frame cw_pop_stack_frame
      split: Option.bind_splits if_splits)

lemma op_add_frame:
  "op_add fp cw = Some (Continue cw') \<Longrightarrow> ip cw' = ip cw \<and> chunk cw' = chunk cw"
  by (auto simp: op_add_def runtime_error_return_def
      dest!: cw_push_stack_frame cw_pop_stack_frame cw_str_concat_frame
      split: Option.bind_splits if_splits)

lemma op_negate_frame:
  "op_negate fp cw = Some (Continue cw') \<Longrightarrow> ip cw' = ip cw \<and> chunk cw' = chunk cw"
  by (auto simp: op_negate_def runtime_error_return_def
      dest!: cw_push_stack_frame cw_pop_stack_frame
      split: Option.bind_splits if_splits)

lemma cw_run_step_advances:
  assumes "cw_run_step fp cw = Some (Continue cw')"
  shows "chunk cw' = chunk cw \<and> ip cw < ip cw' \<and> ip cw' \<le> length (bytes (chunk cw))"
proof -
  from assms obtain i cw1 where rd: "READ_BYTE cw = Some (i, cw1)"
    by (auto simp: cw_run_step_def split: Option.bind_splits)
  then have r1: "ip cw < length (bytes (chunk cw))" "ip cw1 = ip cw + 1" "chunk cw1 = chunk cw"
    by (auto dest: READ_BYTE_frame)
  consider "i = OP_CONSTANT" | "i = OP_NULL" | "i = OP_TRUE" | "i = OP_FALSE" | "i = OP_POP"
    | "i = OP_EQ" | "i = OP_NOTEQ" | "i = OP_LT" | "i = OP_GT" | "i = OP_LTEQ" | "i = OP_GTEQ"
    | "i = OP_ADD" | "i = OP_SUBTRACT" | "i = OP_MULTIPLY" | "i = OP_DIVIDE" | "i = OP_NOT"
    | "i = OP_NEGATE" | "i = OP_PRINT" | "i = OP_RETURN"
    | "i \<notin> {OP_CONSTANT, OP_NULL, OP_TRUE, OP_FALSE, OP_POP, OP_EQ, OP_NOTEQ, OP_LT, OP_GT,
         OP_LTEQ, OP_GTEQ, OP_ADD, OP_SUBTRACT, OP_MULTIPLY, OP_DIVIDE, OP_NOT, OP_NEGATE,
         OP_PRINT, OP_RETURN}"
    by blast
  then have "chunk cw' = chunk cw1 \<and>
    (ip cw' = ip cw1 \<or> ip cw' = ip cw1 + 1 \<and> ip cw1 < length (bytes (chunk cw1)))"
    using assms rd
    by cases
      (auto simp: cw_run_step_def opcode_defs printf_def Let_def
        dest!: cw_push_stack_frame cw_pop_stack_frame cw_print_value_frame READ_CONSTANT_frame
          BINARY_OP_frame op_add_frame op_negate_frame
        split: Option.bind_splits)
  with r1 show ?thesis by auto
qed

function cw_run :: "fpu \<Rightarrow> cwRuntime \<Rightarrow> (InterpretResult \<times> cwRuntime) option" where
  "cw_run fp cw =
     (case cw_run_step fp cw of
        None \<Rightarrow> None
      | Some (Return result cw') \<Rightarrow> Some (result, cw')
      | Some (Continue cw') \<Rightarrow> cw_run fp cw')"
  by pat_completeness auto
termination
proof (relation "measure (\<lambda>(fp, cw). length (bytes (chunk cw)) - ip cw)")
  show "wf (measure (\<lambda>(fp, cw). length (bytes (chunk cw)) - ip cw))"
    by simp
next
  fix fp cw x2 x1
  assume "cw_run_step fp cw = Some x2" and "x2 = Continue x1"
  then have "cw_run_step fp cw = Some (Continue x1)"
    by simp
  from cw_run_step_advances [OF this]
  show "((fp, x1), (fp, cw)) \<in> measure (\<lambda>(fp, cw). length (bytes (chunk cw)) - ip cw)"
    by auto
qed

declare cw_run.simps [simp del]

section \<open>The compiler (compiler.c)\<close>

subsection \<open>Chunks\<close>

definition cw_chunk_init :: cwChunk where
  "cw_chunk_init = \<lparr>bytes = [], lines = [], constants = Map.empty, const_len = 0\<rparr>"

definition cw_chunk_write :: "cwChunk \<Rightarrow> u8 \<Rightarrow> int \<Rightarrow> cwChunk" where
  "cw_chunk_write c byte ln = c\<lparr>bytes := bytes c @ [byte], lines := lines c @ [ln]\<rparr>"

definition cw_chunk_add_constant :: "cwChunk \<Rightarrow> cwValue \<Rightarrow> int \<times> cwChunk" where
  "cw_chunk_add_constant c val =
     (int (const_len c),
      c\<lparr>constants := (constants c)(const_len c \<mapsto> val), const_len := const_len c + 1\<rparr>)"

subsection \<open>Identifiers\<close>

text \<open>
  compiler.c comes in two revisions. In the first \<^verbatim>\<open>cw_make_constant\<close> adds the value with
  \<^verbatim>\<open>cw_chunk_add_constant\<close> and then looks at the index it got.
\<close>

definition cw_make_constant :: "cwRuntime \<Rightarrow> cwValue \<Rightarrow> u8 \<times> cwRuntime" where
  "cw_make_constant cw val =
     (let (constant, c) = cw_chunk_add_constant (chunk cw) val;
          cw1 = cw\<lparr>chunk := c\<rparr>
      in if constant > UINT8_MAX
         then (0, cw_syntax_error_at cw1 (previous cw1) ''Too many constants in one chunk.'')
         else (word_of_int constant, cw1))"

text \<open>
  In the second revision the function writes the slot \<^verbatim>\<open>const_len\<close> itself, then tests
  \<^verbatim>\<open>const_len\<close>, and counts the slot only when the test passes.
\<close>

definition cw_make_constant_v2 :: "cwRuntime \<Rightarrow> cwValue \<Rightarrow> u8 \<times> cwRuntime" where
  "cw_make_constant_v2 cw val =
     (let c = chunk cw;
          c1 = c\<lparr>constants := (constants c)(const_len c \<mapsto> val)\<rparr>;
          cw1 = cw\<lparr>chunk := c1\<rparr>
      in if int (const_len c1) > UINT8_MAX
         then (0, cw_syntax_error_at cw1 (previous cw1) ''Too many constants in one chunk.'')
         else (word_of_nat (const_len c1), cw1\<lparr>chunk := c1\<lparr>const_len := const_len c1 + 1\<rparr>\<rparr>))"

definition cw_identifiers_equal :: "cwToken \<Rightarrow> cwToken \<Rightarrow> bool" where
  "cw_identifiers_equal a b =
     (let a_len = token_len a;
          b_len = token_len b
      in if a_len = b_len then take (nat a_len) (start a) = take (nat a_len) (start b)
         else False)"

subsection \<open>Locals\<close>

definition cw_add_local :: "cwRuntime \<Rightarrow> cwToken \<Rightarrow> cwRuntime" where
  "cw_add_local cw nm =
     (if int (local_count cw) > UINT8_MAX
      then cw_syntax_error_at cw (previous cw) ''Too many variables in scope.''
      else cw\<lparr>locals := locals cw @ [\<lparr>name = nm, depth = - 1\<rparr>]\<rparr>)"

text \<open>
  The loop of \<^verbatim>\<open>cw_resolve_local\<close> runs \<^verbatim>\<open>i\<close> from \<^verbatim>\<open>local_count - 1\<close> down to 0;
  \<open>resolve_local_below cw nm n\<close> is the loop with the slots below \<open>n\<close> still to visit.
\<close>

fun resolve_local_below :: "cwRuntime \<Rightarrow> cwToken \<Rightarrow> nat \<Rightarrow> int \<times> cwRuntime" where
  "resolve_local_below cw nm 0 = (- 1, cw)"
| "resolve_local_below cw nm (Suc i) =
     (let local = locals cw ! i
      in if cw_identifiers_equal nm (name local)
         then (int i,
               if depth local < 0
               then cw_syntax_error_at cw nm ''Can not read local variable in its own initializer.''
               else cw)
         else resolve_local_below cw nm i)"

definition cw_resolve_local :: "cwRuntime \<Rightarrow> cwToken \<Rightarrow> int \<times> cwRuntime" where
  "cw_resolve_local cw nm = resolve_local_below cw nm (local_count cw)"

subsection \<open>Writing byte code\<close>

text \<open>
  The first revision is the one embedded. In the second, \<^verbatim>\<open>cw_emit_byte\<close> takes the chunk
  and the line and does the write of \<^verbatim>\<open>cw_chunk_write\<close> itself, and its callers pass
  \<^verbatim>\<open>cw->chunk\<close> and \<^verbatim>\<open>cw->previous.line\<close>: the same writes. \<^verbatim>\<open>cw_patch_jump\<close> is the same
  in both.
\<close>

definition cw_emit_byte :: "cwRuntime \<Rightarrow> u8 \<Rightarrow> cwRuntime" where
  "cw_emit_byte cw byte = cw\<lparr>chunk := cw_chunk_write (chunk cw) byte (line (previous cw))\<rparr>"

definition cw_emit_bytes :: "cwRuntime \<Rightarrow> u8 \<Rightarrow> u8 \<Rightarrow> cwRuntime" where
  "cw_emit_bytes cw a b = cw_emit_byte (cw_emit_byte cw a) b"

definition cw_emit_jump :: "cwRuntime \<Rightarrow> u8 \<Rightarrow> int \<times> cwRuntime" where
  "cw_emit_jump cw instruction =
     (let cw1 = cw_emit_byte cw instruction;
          cw2 = cw_emit_byte cw1 0xff;
          cw3 = cw_emit_byte cw2 0xff
      in (int (length (bytes (chunk cw3))) - 2, cw3))"

text \<open>
  \<^verbatim>\<open>cw_patch_jump\<close> stores into \<^verbatim>\<open>bytes[offset]\<close> and \<^verbatim>\<open>bytes[offset + 1]\<close>; \<open>None\<close> stands
  for a store outside the written part of the array. The shift and the masks are those
  of C on \<^verbatim>\<open>int\<close>, and the store into a \<^verbatim>\<open>uint8_t\<close> slot keeps the low eight bits.
\<close>

definition cw_patch_jump :: "cwRuntime \<Rightarrow> int \<Rightarrow> cwRuntime option" where
  "cw_patch_jump cw offset =
     (let jump = int (length (bytes (chunk cw))) - offset - 2;
          cw1 = (if jump > UINT16_MAX
                 then cw_syntax_error_at cw (previous cw) ''Too much code to jump over.''
                 else cw)
      in if 0 \<le> offset \<and> offset + 1 < int (length (bytes (chunk cw1)))
         then Some (cw1\<lparr>chunk := (chunk cw1)\<lparr>bytes :=
                (bytes (chunk cw1))
                  [nat offset := word_of_int (drop_bit 8 jump AND 0xff),
                   nat (offset + 1) := word_of_int (jump AND 0xff)]\<rparr>\<rparr>)
         else None)"

subsection \<open>Compiling\<close>

definition cw_compiler_end :: "cwRuntime \<Rightarrow> cwRuntime" where
  "cw_compiler_end cw = cw_emit_byte cw OP_RETURN"

text \<open>
  The scanner and the parser (\<^verbatim>\<open>cw_advance\<close>, \<^verbatim>\<open>cw_match\<close>, \<^verbatim>\<open>cw_parse_declaration\<close>) are
  not among the sources; \<^verbatim>\<open>cw_compile\<close> takes them as parameters. Each may fail to
  return (\<open>None\<close>).
\<close>

record parser =
  cw_advance :: "cwRuntime \<Rightarrow> cwRuntime option"
  cw_match :: "cwRuntime \<Rightarrow> cwTokenType \<Rightarrow> (bool \<times> cwRuntime) option"
  cw_parse_declaration :: "cwRuntime \<Rightarrow> cwRuntime option"

text \<open>The loop \<^verbatim>\<open>while (!cw_match(cw, TOKEN_EOF)) cw_parse_declaration(cw);\<close>\<close>

partial_function (option) cw_compile_loop :: "parser \<Rightarrow> cwRuntime \<Rightarrow> cwRuntime option" where
  "cw_compile_loop ps cw =
     do { (matched, cw1) \<leftarrow> cw_match ps cw TOKEN_EOF;
          if matched then Some cw1
          else do { cw2 \<leftarrow> cw_parse_declaration ps cw1; cw_compile_loop ps cw2 } }"

definition cw_compile :: "parser \<Rightarrow> cwRuntime \<Rightarrow> string \<Rightarrow> cwChunk \<Rightarrow> (bool \<times> cwRuntime) option" where
  "cw_compile ps cw src c =
     (let cw1 = cw\<lparr>current := (current cw)\<lparr>type_tok := TOKEN_NULL, start := src, end_tok := src, line := 1\<rparr>\<rparr>;
          cw2 = cw1\<lparr>chunk := c, locals := [], scope_depth := 0, error := False, panic := False\<rparr>
      in do { cw3 \<leftarrow> cw_advance ps cw2;
              cw4 \<leftarrow> cw_compile_loop ps cw3;
              let cw5 = cw_compiler_end cw4;
              Some (\<not> error cw5, cw5) })"

text \<open>\<^verbatim>\<open>cw_interpret\<close> runs the chunk from its first byte when the compiler reports success.\<close>

definition cw_interpret :: "fpu \<Rightarrow> parser \<Rightarrow> cwRuntime \<Rightarrow> string \<Rightarrow> (InterpretResult \<times> cwRuntime) option" where
  "cw_interpret fp ps cw src =
     do { (ok, cw1) \<leftarrow> cw_compile ps cw src cw_chunk_init;
          if ok then cw_run fp (cw1\<lparr>ip := 0\<rparr>)
          else Some (INTERPRET_COMPILE_ERROR, cw1) }"

text \<open>The runtime of \<^verbatim>\<open>main\<close>: the zeroed record after \<^verbatim>\<open>cw_init\<close>.\<close>

definition zero_token :: cwToken where
  "zero_token = \<lparr>type_tok = TOKEN_EOF, mod_tok = TOKENMOD_NONE, start = [], end_tok = [], line = 0\<rparr>"

definition cw_init :: cwRuntime where
  "cw_init =
     \<lparr>chunk = cw_chunk_init, ip = 0, stack = [], objects = [], strings = Map.empty,
      previous = zero_token, current = zero_token, locals = [], scope_depth = 0,
      error = False, panic = False, stdout = [], stderr = []\<rparr>"

section \<open>Predicates and examples for the properties\<close>

text \<open>
  The locals inside the initializer of the inner \<^verbatim>\<open>x\<close> of
  \<^verbatim>\<open>{ let x = 1; { let x = x; } }\<close>, and the token of the \<^verbatim>\<open>x\<close> being read.
\<close>

definition tok_x :: cwToken where
  "tok_x = \<lparr>type_tok = TOKEN_IDENTIFIER, mod_tok = TOKENMOD_NONE,
            start = ''x; } }'', end_tok = ''; } }'', line = 1\<rparr>"

definition cw_inner_x :: cwRuntime where
  "cw_inner_x =
     cw_init\<lparr>locals := [\<lparr>name = tok_x, depth = 1\<rparr>, \<lparr>name = tok_x, depth = - 1\<rparr>],
             scope_depth := 2\<rparr>"

text \<open>
  The 16-bit big-endian number held by the two bytes at \<open>offset\<close> and \<open>offset + 1\<close>: the
  operand of a jump instruction.
\<close>

definition operand16 :: "cwChunk \<Rightarrow> int \<Rightarrow> int" where
  "operand16 c offset =
     uint (bytes c ! nat offset) * 256 + uint (bytes c ! nat (offset + 1))"

text \<open>A chunk of 70000 bytes, for a jump from offset 1 over 69997 bytes.\<close>

definition cw_long_chunk :: cwRuntime where
  "cw_long_chunk =
     cw_init\<lparr>chunk := cw_chunk_init\<lparr>bytes := replicate 70000 OP_NULL, lines := replicate 70000 1\<rparr>\<rparr>"

text \<open>
  A jump emitted into the empty chunk (the instruction byte 0x16 is none of the opcodes
  above), followed by two more bytes of code.
\<close>

definition cw_jump_over_two :: cwRuntime where
  "cw_jump_over_two =
     cw_emit_byte (cw_emit_byte (snd (cw_emit_jump cw_init 0x16)) OP_NULL) OP_POP"

text \<open>A chunk whose pool holds 256 constants, in the slots 0 to 255.\<close>

definition cw_full_pool :: cwRuntime where
  "cw_full_pool =
     cw_init\<lparr>chunk := cw_chunk_init
       \<lparr>constants := (\<lambda>i. if i < 256 then Some VAL_NULL else None), const_len := 256\<rparr>\<rparr>"

text \<open>
  The ways compiler.c changes a chunk: \<^verbatim>\<open>cw_chunk_write\<close> appends a byte and its line, a
  patch stores a byte below \<^verbatim>\<open>len\<close>, and the constants pool is written. The parser, which
  \<^verbatim>\<open>cw_compile\<close> takes as a parameter, is assumed to change the chunk in these ways only.
\<close>

inductive writes_chunk :: "cwChunk \<Rightarrow> cwChunk \<Rightarrow> bool" where
  same_chunk: "writes_chunk c c"
| written: "writes_chunk c c' \<Longrightarrow> writes_chunk c (cw_chunk_write c' byte ln)"
| stored: "writes_chunk c c' \<Longrightarrow> i < length (bytes c') \<Longrightarrow>
            writes_chunk c (c'\<lparr>bytes := (bytes c')[i := byte]\<rparr>)"
| pooled: "writes_chunk c c' \<Longrightarrow> writes_chunk c (c'\<lparr>constants := k, const_len := n\<rparr>)"

definition parser_writes_chunk :: "parser \<Rightarrow> bool" where
  "parser_writes_chunk ps =
     ((\<forall>cw cw'. cw_advance ps cw = Some cw' \<longrightarrow> writes_chunk (chunk cw) (chunk cw')) \<and>
      (\<forall>cw t m cw'. cw_match ps cw t = Some (m, cw') \<longrightarrow> writes_chunk (chunk cw) (chunk cw')) \<and>
      (\<forall>cw cw'. cw_parse_declaration ps cw = Some cw' \<longrightarrow>
         writes_chunk (chunk cw) (chunk cw')))"

text \<open>
  A stand-in for the scanner and the parser, enough to run \<^verbatim>\<open>cw_compile\<close>: every byte of
  the source is one expression statement, compiled to \<open>OP_NULL\<close>, \<open>OP_POP\<close>.
\<close>

definition toy_parser :: parser where
  "toy_parser =
     \<lparr>cw_advance = (\<lambda>cw. Some (cw\<lparr>previous := current cw\<rparr>)),
      cw_match = (\<lambda>cw t. Some (t = TOKEN_EOF \<and> end_tok (current cw) = [], cw)),
      cw_parse_declaration = (\<lambda>cw.
        Some (cw_emit_bytes
               (cw\<lparr>previous := current cw,
                    current := (current cw)\<lparr>end_tok := tl (end_tok (current cw))\<rparr>\<rparr>)
               OP_NULL OP_POP))\<rparr>"

text \<open>
  An arithmetic to run examples with (the operations of 64-bit words). It is a stand-in:
  the properties of the interpreter are stated for whichever arithmetic it is given.
\<close>

definition fpu_example :: fpu where
  "fpu_example =
     \<lparr>fp_add = (+), fp_sub = (-), fp_mul = (*), fp_div = (div), fp_neg = uminus,
      fp_lt = (<), fp_gt = (>), fp_le = (\<le>), fp_ge = (\<ge>)\<rparr>"

text \<open>
  The intern table names objects of the store, each under its own bytes.
\<close>

definition intern_ok :: "cwRuntime \<Rightarrow> bool" where
  "intern_ok cw = (\<forall>s r. strings cw s = Some r \<longrightarrow> r < length (objects cw) \<and> objects cw ! r = s)"

text \<open>Three runtimes about to execute \<open>OP_ADD\<close>.\<close>

definition cw_add_numbers :: cwRuntime where
  "cw_add_numbers =
     cw_init\<lparr>chunk := cw_chunk_init\<lparr>bytes := [OP_ADD, OP_RETURN], lines := [1, 1]\<rparr>,
             stack := [VAL_FLOAT 1, VAL_FLOAT 2]\<rparr>"

definition cw_add_strings :: cwRuntime where
  "cw_add_strings =
     cw_init\<lparr>chunk := cw_chunk_init\<lparr>bytes := [OP_ADD, OP_RETURN], lines := [1, 1]\<rparr>,
             stack := [VAL_OBJECT 0, VAL_OBJECT 1],
             objects := [''foo'', ''bar''],
             strings := [''foo'' \<mapsto> 0, ''bar'' \<mapsto> 1]\<rparr>"

definition cw_add_mixed :: cwRuntime where
  "cw_add_mixed =
     cw_init\<lparr>chunk := cw_chunk_init\<lparr>bytes := [OP_ADD, OP_RETURN], lines := [1, 1]\<rparr>,
             stack := [VAL_OBJECT 0, VAL_FLOAT 1],
             objects := [''foo''],
             strings := [''foo'' \<mapsto> 0]\<rparr>"

text \<open>A chunk that pushes 257 values and returns.\<close>

definition cw_push_257 :: cwRuntime where
  "cw_push_257 =
     cw_init\<lparr>chunk := cw_chunk_init
       \<lparr>bytes := replicate 257 OP_NULL @ [OP_RETURN], lines := replicate 258 1\<rparr>\<rparr>"

text \<open>A chunk that pushes 257 values, then prints \<^verbatim>\<open>true\<close> and returns.\<close>

definition cw_push_257_print :: cwRuntime where
  "cw_push_257_print =
     cw_init\<lparr>chunk := cw_chunk_init
       \<lparr>bytes := replicate 257 OP_NULL @ [OP_TRUE, OP_PRINT, OP_RETURN],
        lines := replicate 260 1\<rparr>\<rparr>"

text \<open>
  The bytecode of an expression that nests 257 operands,
  \<^verbatim>\<open>null == (null == ( ... == null))\<close>, as an expression statement: 257 pushes, 256
  comparisons, \<open>OP_POP\<close>.
\<close>

definition cw_nested_257 :: cwRuntime where
  "cw_nested_257 =
     cw_init\<lparr>chunk := cw_chunk_init
       \<lparr>bytes := replicate 257 OP_NULL @ replicate 256 OP_EQ @ [OP_POP, OP_RETURN],
        lines := replicate 515 1\<rparr>\<rparr>"

section \<open>Panic mode\<close>

text \<open>
  C9. The first syntax error reported through \<^verbatim>\<open>cw_syntax_error_at\<close> (panic not yet set)
  sets \<open>error\<close> and \<open>panic\<close>. While \<open>panic\<close> is set a call is suppressed: it returns
  the runtime as it was, nothing printed and no field changed; so a second report right
  after a first one changes nothing.
\<close>

theorem syntax_error_first_sets_flags_later_suppressed:
  "(\<not> panic cw \<longrightarrow>
      error (cw_syntax_error_at cw tok msg) \<and> panic (cw_syntax_error_at cw tok msg)) \<and>
   (panic cw \<longrightarrow> cw_syntax_error_at cw tok msg = cw) \<and>
   cw_syntax_error_at (cw_syntax_error_at cw tok msg) tok' msg' = cw_syntax_error_at cw tok msg"
  by (simp add: cw_syntax_error_at_def fprintf_stderr_def Let_def)

theorem syntax_error_first_sets_flags_later_suppressed_witness:
  "error (cw_syntax_error_at cw_init zero_token ''Expect expression.'') \<and>
   panic (cw_syntax_error_at cw_init zero_token ''Expect expression.'') \<and>
   cw_syntax_error_at (cw_init\<lparr>panic := True\<rparr>) zero_token ''Expect expression.''
     = cw_init\<lparr>panic := True\<rparr>"
  using syntax_error_first_sets_flags_later_suppressed
          [of cw_init zero_token "''Expect expression.''"]
        syntax_error_first_sets_flags_later_suppressed
          [of "cw_init\<lparr>panic := True\<rparr>" zero_token "''Expect expression.''"]
  by (simp add: cw_init_def)

section \<open>Resolving locals\<close>

text \<open>
  The loop returns the highest slot whose name equals the identifier, and reports the
  error when that slot is not yet initialised.
\<close>

lemma resolve_local_below_found:
  assumes "i < n" and "n \<le> local_count cw"
    and "cw_identifiers_equal nm (name (locals cw ! i))"
    and "\<forall>j. i < j \<and> j < n \<longrightarrow> \<not> cw_identifiers_equal nm (name (locals cw ! j))"
  shows "resolve_local_below cw nm n =
     (int i,
      if depth (locals cw ! i) < 0
      then cw_syntax_error_at cw nm ''Can not read local variable in its own initializer.''
      else cw)"
  using assms
proof (induction n)
  case 0
  then show ?case by simp
next
  case (Suc n)
  show ?case
  proof (cases "i = n")
    case True
    with Suc.prems show ?thesis by (simp add: Let_def)
  next
    case False
    with Suc.prems have "i < n" by simp
    moreover from Suc.prems have "\<not> cw_identifiers_equal nm (name (locals cw ! n))"
      using \<open>i < n\<close> by simp
    ultimately show ?thesis using Suc by (simp add: Let_def)
  qed
qed

text \<open>
  C8. When the local that an identifier resolves to (the innermost slot with an equal
  name) has depth -1, \<^verbatim>\<open>cw_resolve_local\<close> reports "Can not read local variable in its
  own initializer." at the identifier through \<^verbatim>\<open>cw_syntax_error_at\<close>, and still returns
  the slot. Outside panic mode the report sets \<open>error\<close> and ends the error stream with
  that message.
\<close>

theorem resolve_local_uninitialized_is_error:
  assumes "i < local_count cw"
    and "cw_identifiers_equal nm (name (locals cw ! i))"
    and "\<forall>j. i < j \<and> j < local_count cw \<longrightarrow> \<not> cw_identifiers_equal nm (name (locals cw ! j))"
    and "depth (locals cw ! i) = - 1"
  shows "cw_resolve_local cw nm =
           (int i, cw_syntax_error_at cw nm ''Can not read local variable in its own initializer.'')
         \<and> (\<not> panic cw \<longrightarrow>
              error (snd (cw_resolve_local cw nm)) \<and>
              stderr (snd (cw_resolve_local cw nm)) \<noteq> stderr cw \<and>
              last (stderr (snd (cw_resolve_local cw nm))) =
                Printf ('': %s'' @ [CHR 0x0A])
                  [ArgStr ''Can not read local variable in its own initializer.''])"
proof -
  have "cw_resolve_local cw nm =
      (int i, cw_syntax_error_at cw nm ''Can not read local variable in its own initializer.'')"
    unfolding cw_resolve_local_def
    using resolve_local_below_found [of i "local_count cw" cw nm] assms by simp
  then show ?thesis
    by (simp add: cw_syntax_error_at_def fprintf_stderr_def Let_def)
qed

theorem resolve_local_uninitialized_is_error_witness:
  "cw_resolve_local cw_inner_x tok_x
     = (1, cw_syntax_error_at cw_inner_x tok_x
             ''Can not read local variable in its own initializer.'')
   \<and> error (snd (cw_resolve_local cw_inner_x tok_x))"
proof -
  have 1: "1 < local_count cw_inner_x"
    by (simp add: cw_inner_x_def)
  have 2: "cw_identifiers_equal tok_x (name (locals cw_inner_x ! 1))"
    by (simp add: cw_inner_x_def cw_identifiers_equal_def)
  have 3: "\<forall>j. 1 < j \<and> j < local_count cw_inner_x \<longrightarrow>
             \<not> cw_identifiers_equal tok_x (name (locals cw_inner_x ! j))"
    by (auto simp: cw_inner_x_def)
  have 4: "depth (locals cw_inner_x ! 1) = - 1"
    by (simp add: cw_inner_x_def)
  have "\<not> panic cw_inner_x"
    by (simp add: cw_inner_x_def cw_init_def)
  with resolve_local_uninitialized_is_error [OF 1 2 3 4] show ?thesis
    by auto
qed

section \<open>Jumps\<close>

text \<open>The two stores of \<^verbatim>\<open>cw_patch_jump\<close>, read back as numbers.\<close>

lemma and_ff_int: "(j::int) AND 0xff = j mod 256"
proof -
  have "(0xff::int) = mask 8" by (simp add: mask_eq_exp_minus_1)
  then have "j AND 0xff = take_bit 8 j" by (simp only: take_bit_eq_mask)
  then show ?thesis by (simp only: take_bit_eq_mod) simp
qed

lemma lo_byte: "uint (word_of_int (j AND 0xff) :: u8) = j mod 256"
  by (simp only: and_ff_int uint_word_of_int_eq take_bit_eq_mod) simp

lemma hi_byte: "uint (word_of_int (drop_bit 8 j AND 0xff) :: u8) = (j div 256) mod 256"
  by (simp only: and_ff_int uint_word_of_int_eq take_bit_eq_mod drop_bit_eq_div) simp

lemma be16: "((j::int) div 256) mod 256 * 256 + j mod 256 = j mod 65536"
  using zmod_zmult2_eq [of 256 j 256] by simp

lemma cw_emit_byte_bytes [simp]:
  "bytes (chunk (cw_emit_byte cw b)) = bytes (chunk cw) @ [b]"
  by (simp add: cw_emit_byte_def cw_chunk_write_def)

lemma cw_emit_jump_result:
  "cw_emit_jump cw instruction = (offset, cw1) \<Longrightarrow>
     offset = int (length (bytes (chunk cw))) + 1 \<and>
     bytes (chunk cw1) = bytes (chunk cw) @ [instruction, 0xff, 0xff]"
  by (auto simp: cw_emit_jump_def Let_def)

lemma cw_patch_jump_writes:
  assumes "0 \<le> offset" and "offset + 1 < int (length (bytes (chunk cw)))"
  shows "cw_patch_jump cw offset =
     Some ((if int (length (bytes (chunk cw))) - offset - 2 > UINT16_MAX
            then cw_syntax_error_at cw (previous cw) ''Too much code to jump over.''
            else cw)
       \<lparr>chunk := (chunk cw)\<lparr>bytes := (bytes (chunk cw))
          [nat offset := word_of_int (drop_bit 8 (int (length (bytes (chunk cw))) - offset - 2) AND 0xff),
           nat (offset + 1) := word_of_int ((int (length (bytes (chunk cw))) - offset - 2) AND 0xff)]\<rparr>\<rparr>)"
  using assms
  by (simp add: cw_patch_jump_def Let_def cw_syntax_error_at_def fprintf_stderr_def)

lemma nth_update_pair:
  "i < length xs \<Longrightarrow> j < length xs \<Longrightarrow> i \<noteq> j \<Longrightarrow>
     xs[i := a, j := b] ! i = a \<and> xs[i := a, j := b] ! j = b"
  by simp

lemma operand16_eq:
  "bytes c ! nat offset = hi \<Longrightarrow> bytes c ! nat (offset + 1) = lo \<Longrightarrow>
     operand16 c offset = uint hi * 256 + uint lo"
  by (simp add: operand16_def)

lemma bytes_update: "bytes (c\<lparr>bytes := xs\<rparr>) = xs"
  by simp

lemma operand16_patched:
  assumes "0 \<le> offset" and "offset + 1 < int (length bs)"
  shows "operand16 (c\<lparr>bytes := bs[nat offset := word_of_int (drop_bit 8 j AND 0xff),
                                 nat (offset + 1) := word_of_int (j AND 0xff)]\<rparr>) offset
         = j mod 65536"
proof -
  let ?hi = "word_of_int (drop_bit 8 j AND 0xff) :: u8"
  let ?lo = "word_of_int (j AND 0xff) :: u8"
  let ?bs = "bs[nat offset := ?hi, nat (offset + 1) := ?lo]"
  from assms have n: "nat offset < length bs" "nat (offset + 1) < length bs"
    "nat offset \<noteq> nat (offset + 1)"
    by auto
  have hi: "?bs ! nat offset = ?hi" and lo: "?bs ! nat (offset + 1) = ?lo"
    using nth_update_pair [OF n] by blast+
  have "operand16 (c\<lparr>bytes := ?bs\<rparr>) offset = uint ?hi * 256 + uint ?lo"
    by (rule operand16_eq) (simp_all only: bytes_update hi lo)
  also have "\<dots> = j div 256 mod 256 * 256 + j mod 256"
    using hi_byte [of j] lo_byte [of j] by presburger
  also have "\<dots> = j mod 65536"
    by (rule be16)
  finally show ?thesis .
qed

text \<open>
  C6. A jump emitted by \<^verbatim>\<open>cw_emit_jump\<close>, which returns \<open>offset\<close>, and patched by
  \<^verbatim>\<open>cw_patch_jump\<close> at \<open>offset\<close> once the chunk has grown to any length: the patch stays
  inside the chunk, and with \<open>jump = len - offset - 2\<close> the bytes at \<open>offset\<close> and
  \<open>offset + 1\<close> hold \<open>jump\<close> as a 16-bit big-endian number whenever \<open>jump\<close> fits
  (\<open>jump \<le> UINT16_MAX\<close>; then nothing but the chunk changes). When \<open>jump\<close> exceeds
  \<open>UINT16_MAX\<close> the error "Too much code to jump over." is reported through
  \<^verbatim>\<open>cw_syntax_error_at\<close> at the previous token, which sets \<open>error\<close> unless panic mode
  suppresses the report.
\<close>

theorem patched_jump_holds_displacement:
  assumes "cw_emit_jump cw instruction = (offset, cw1)"
    and "length (bytes (chunk cw1)) \<le> length (bytes (chunk cw2))"
  shows "case cw_patch_jump cw2 offset of
           None \<Rightarrow> False
         | Some cw3 \<Rightarrow>
             (let jump = int (length (bytes (chunk cw2))) - offset - 2
              in length (bytes (chunk cw3)) = length (bytes (chunk cw2)) \<and>
                 0 \<le> jump \<and>
                 operand16 (chunk cw3) offset = jump mod 65536 \<and>
                 (jump \<le> UINT16_MAX \<longrightarrow>
                    operand16 (chunk cw3) offset = jump \<and> cw3 = cw2\<lparr>chunk := chunk cw3\<rparr>) \<and>
                 (jump > UINT16_MAX \<longrightarrow>
                    cw3 = (cw_syntax_error_at cw2 (previous cw2) ''Too much code to jump over.'')
                            \<lparr>chunk := chunk cw3\<rparr> \<and>
                    (\<not> panic cw2 \<longrightarrow> error cw3)))"
proof -
  from cw_emit_jump_result [OF assms(1)]
  have off: "offset = int (length (bytes (chunk cw))) + 1"
    and len1: "length (bytes (chunk cw1)) = length (bytes (chunk cw)) + 3"
    by auto
  from off have o0: "0 \<le> offset" by simp
  from off len1 assms(2) have rng: "offset + 1 < int (length (bytes (chunk cw2)))"
    by simp
  let ?jump = "int (length (bytes (chunk cw2))) - offset - 2"
  from rng have j0: "0 \<le> ?jump" by simp
  have small: "?jump \<le> UINT16_MAX \<Longrightarrow> ?jump mod 65536 = ?jump"
    using j0 by (simp add: UINT16_MAX_def)
  show ?thesis
    using j0 small
    by (simp add: cw_patch_jump_writes [OF o0 rng] operand16_patched [OF o0 rng]
        cw_syntax_error_at_def fprintf_stderr_def Let_def del: and_numerals)
qed

theorem patched_jump_holds_displacement_witness:
  "fst (cw_emit_jump cw_init 0x16) = 1 \<and>
   cw_patch_jump cw_jump_over_two 1 \<noteq> None \<and>
   operand16 (chunk (the (cw_patch_jump cw_jump_over_two 1))) 1 = 2 \<and>
   the (cw_patch_jump cw_jump_over_two 1)
     = cw_jump_over_two\<lparr>chunk := chunk (the (cw_patch_jump cw_jump_over_two 1))\<rparr>"
proof -
  have f: "fst (cw_emit_jump cw_init 0x16) = 1"
    by (simp add: cw_emit_jump_def Let_def cw_init_def cw_chunk_init_def)
  then have a: "cw_emit_jump cw_init 0x16 = (1, snd (cw_emit_jump cw_init 0x16))"
    by (metis prod.collapse)
  have b: "length (bytes (chunk (snd (cw_emit_jump cw_init 0x16))))
             \<le> length (bytes (chunk cw_jump_over_two))"
    by (simp add: cw_jump_over_two_def)
  have l: "int (length (bytes (chunk cw_jump_over_two))) = 5"
    by (simp add: cw_jump_over_two_def cw_emit_jump_def Let_def cw_init_def cw_chunk_init_def)
  from patched_jump_holds_displacement [OF a b] f l show ?thesis
    by (auto simp: Let_def UINT16_MAX_def split: option.splits)
qed

text \<open>
  C10. When the displacement \<open>len - offset - 2\<close> exceeds \<open>UINT16_MAX\<close>, \<^verbatim>\<open>cw_patch_jump\<close>
  reports the error and still stores into the chunk: the result is the runtime after the
  report, with the bytes at \<open>offset\<close> and \<open>offset + 1\<close> overwritten (and no other byte),
  and the two bytes hold the low 16 bits of the displacement.
\<close>

theorem patch_jump_overflow_still_writes:
  assumes "0 \<le> offset"
    and "int (length (bytes (chunk cw))) - offset - 2 > UINT16_MAX"
  shows "case cw_patch_jump cw offset of
           None \<Rightarrow> False
         | Some cw' \<Rightarrow>
             cw' = (cw_syntax_error_at cw (previous cw) ''Too much code to jump over.'')
                     \<lparr>chunk := chunk cw'\<rparr> \<and>
             (\<not> panic cw \<longrightarrow> error cw') \<and>
             chunk cw' = (chunk cw)\<lparr>bytes := (bytes (chunk cw))
               [nat offset := bytes (chunk cw') ! nat offset,
                nat (offset + 1) := bytes (chunk cw') ! nat (offset + 1)]\<rparr> \<and>
             operand16 (chunk cw') offset
               = (int (length (bytes (chunk cw))) - offset - 2) mod 65536"
proof -
  from assms have rng: "offset + 1 < int (length (bytes (chunk cw)))"
    by (simp add: UINT16_MAX_def)
  have n: "nat offset < length (bytes (chunk cw))" "nat (offset + 1) < length (bytes (chunk cw))"
    "nat offset \<noteq> nat (offset + 1)"
    using assms(1) rng by auto
  show ?thesis
    using assms n
    by (simp add: cw_patch_jump_writes [OF assms(1) rng] operand16_patched [OF assms(1) rng]
        cw_syntax_error_at_def fprintf_stderr_def Let_def del: and_numerals)
qed

theorem patch_jump_overflow_still_writes_witness:
  "cw_patch_jump cw_long_chunk 1 \<noteq> None \<and>
   error (the (cw_patch_jump cw_long_chunk 1)) \<and>
   operand16 (chunk (the (cw_patch_jump cw_long_chunk 1))) 1 = 4461"
proof -
  have a: "int (length (bytes (chunk cw_long_chunk))) - 1 - 2 > UINT16_MAX"
    by (simp add: cw_long_chunk_def UINT16_MAX_def)
  have p: "\<not> panic cw_long_chunk"
    by (simp add: cw_long_chunk_def cw_init_def)
  have l: "int (length (bytes (chunk cw_long_chunk))) = 70000"
    by (simp add: cw_long_chunk_def)
  from patch_jump_overflow_still_writes [of 1 cw_long_chunk, OF _ a] p l show ?thesis
    by (auto split: option.splits)
qed

section \<open>The constants pool\<close>

text \<open>
  C2, as stated, fails. With 256 constants in the pool the first revision of
  \<^verbatim>\<open>cw_make_constant\<close> returns 0 but has added the value: \<open>const_len\<close> is 257 and slot 256
  holds the value. The second revision, too, has written slot 256 before it tests the
  limit.
\<close>

theorem make_constant_adds_before_check_counterexample:
  "const_len (chunk cw_full_pool) = 256 \<and>
   constants (chunk cw_full_pool) 256 = None \<and>
   fst (cw_make_constant cw_full_pool (VAL_BOOL True)) = 0 \<and>
   const_len (chunk (snd (cw_make_constant cw_full_pool (VAL_BOOL True)))) = 257 \<and>
   constants (chunk (snd (cw_make_constant cw_full_pool (VAL_BOOL True)))) 256
     = Some (VAL_BOOL True) \<and>
   constants (chunk (snd (cw_make_constant_v2 cw_full_pool (VAL_BOOL True)))) 256
     = Some (VAL_BOOL True)"
  by (simp add: cw_full_pool_def cw_make_constant_def cw_make_constant_v2_def
      cw_chunk_add_constant_def cw_init_def cw_chunk_init_def UINT8_MAX_def
      cw_syntax_error_at_def fprintf_stderr_def Let_def)

text \<open>
  C2, amended. With 256 constants in the pool, both revisions of \<^verbatim>\<open>cw_make_constant\<close>
  first store the value in slot 256 of the constants array and then test the limit; they
  report "Too many constants in one chunk." through \<^verbatim>\<open>cw_syntax_error_at\<close> at the
  previous token (which sets \<open>error\<close> unless panic mode suppresses the report) and return
  0. Apart from the chunk the runtime is the one after the report; in the chunk no other
  slot of the constants, no byte and no line changes. In the second revision \<open>const_len\<close>
  stays 256: the stored value is not counted as a constant.
\<close>

theorem make_constant_overflow:
  assumes "const_len (chunk cw) = 256"
  shows "fst (cw_make_constant cw val) = 0 \<and>
         fst (cw_make_constant_v2 cw val) = 0 \<and>
         (snd (cw_make_constant cw val))\<lparr>chunk := chunk cw\<rparr>
           = cw_syntax_error_at cw (previous cw) ''Too many constants in one chunk.'' \<and>
         (snd (cw_make_constant_v2 cw val))\<lparr>chunk := chunk cw\<rparr>
           = cw_syntax_error_at cw (previous cw) ''Too many constants in one chunk.'' \<and>
         (\<not> panic cw \<longrightarrow>
            error (snd (cw_make_constant cw val)) \<and> error (snd (cw_make_constant_v2 cw val))) \<and>
         constants (chunk (snd (cw_make_constant cw val))) = (constants (chunk cw))(256 \<mapsto> val) \<and>
         constants (chunk (snd (cw_make_constant_v2 cw val))) = (constants (chunk cw))(256 \<mapsto> val) \<and>
         bytes (chunk (snd (cw_make_constant cw val))) = bytes (chunk cw) \<and>
         bytes (chunk (snd (cw_make_constant_v2 cw val))) = bytes (chunk cw) \<and>
         lines (chunk (snd (cw_make_constant cw val))) = lines (chunk cw) \<and>
         lines (chunk (snd (cw_make_constant_v2 cw val))) = lines (chunk cw) \<and>
         const_len (chunk (snd (cw_make_constant_v2 cw val))) = 256"
  using assms
  by (simp add: cw_make_constant_def cw_make_constant_v2_def cw_chunk_add_constant_def
      UINT8_MAX_def cw_syntax_error_at_def fprintf_stderr_def Let_def)

theorem make_constant_overflow_witness:
  "fst (cw_make_constant cw_full_pool (VAL_BOOL True)) = 0 \<and>
   fst (cw_make_constant_v2 cw_full_pool (VAL_BOOL True)) = 0 \<and>
   error (snd (cw_make_constant cw_full_pool (VAL_BOOL True))) \<and>
   error (snd (cw_make_constant_v2 cw_full_pool (VAL_BOOL True))) \<and>
   constants (chunk (snd (cw_make_constant cw_full_pool (VAL_BOOL True)))) 255 = Some VAL_NULL \<and>
   constants (chunk (snd (cw_make_constant_v2 cw_full_pool (VAL_BOOL True)))) 255 = Some VAL_NULL \<and>
   constants (chunk (snd (cw_make_constant_v2 cw_full_pool (VAL_BOOL True)))) 256
     = Some (VAL_BOOL True) \<and>
   const_len (chunk (snd (cw_make_constant_v2 cw_full_pool (VAL_BOOL True)))) = 256"
proof -
  have a: "const_len (chunk cw_full_pool) = 256"
    by (simp add: cw_full_pool_def)
  have p: "\<not> panic cw_full_pool"
    by (simp add: cw_full_pool_def cw_init_def)
  have c: "constants (chunk cw_full_pool) 255 = Some VAL_NULL"
    by (simp add: cw_full_pool_def)
  from make_constant_overflow [OF a, of "VAL_BOOL True"] p c show ?thesis
    by simp
qed

section \<open>Printing values\<close>

text \<open>
  C4, as stated, fails. The printer has a case for integers, which it prints with
  \<^verbatim>\<open>%d\<close>; only the floating-point case is printed with \<^verbatim>\<open>%g\<close>.
\<close>

theorem print_value_int_counterexample:
  "stdout (the (cw_print_value cw_init (VAL_INT 7))) = [Printf ''%d'' [ArgInt 7]] \<and>
   stdout (the (cw_print_value cw_init (VAL_FLOAT 7))) = [Printf ''%g'' [ArgDouble 7]]"
  by (simp add: cw_print_value_def printf_def cw_init_def)

lemma printf_inject:
  "(printf cw f a = printf cw f' a') = (f = f' \<and> a = a')"
proof
  assume "printf cw f a = printf cw f' a'"
  then have "stdout (printf cw f a) = stdout (printf cw f' a')"
    by simp
  then show "f = f' \<and> a = a'"
    by (simp add: printf_def)
qed simp

text \<open>
  C4, amended. The values \<^verbatim>\<open>cw_print_value\<close> prints have two numeric cases: \<open>VAL_FLOAT\<close>,
  printed with \<^verbatim>\<open>printf("%g", ...)\<close>, and \<open>VAL_INT\<close>, printed with \<^verbatim>\<open>printf("%d", ...)\<close>.
  The \<open>VAL_FLOAT\<close> values are the only ones printed with \<^verbatim>\<open>%g\<close>.
\<close>

theorem print_value_numeric_cases:
  "cw_print_value cw (VAL_FLOAT d) = Some (printf cw ''%g'' [ArgDouble d]) \<and>
   cw_print_value cw (VAL_INT i) = Some (printf cw ''%d'' [ArgInt (sint i)]) \<and>
   ((\<exists>d. cw_print_value cw v = Some (printf cw ''%g'' [ArgDouble d])) = (\<exists>d. v = VAL_FLOAT d))"
  by (cases v) (auto simp: cw_print_value_def cw_print_object_def printf_inject split: if_splits)

section \<open>The compiled chunk\<close>

lemma writes_chunk_trans:
  "writes_chunk c1 c2 \<Longrightarrow> writes_chunk c0 c1 \<Longrightarrow> writes_chunk c0 c2"
  by (induction rule: writes_chunk.induct) (auto intro: writes_chunk.intros)

lemma writes_chunk_parallel:
  "writes_chunk c c' \<Longrightarrow> length (bytes c) = length (lines c) \<Longrightarrow>
     length (bytes c') = length (lines c')"
  by (induction rule: writes_chunk.induct) (auto simp: cw_chunk_write_def)

lemma writes_chunk_emit_byte: "writes_chunk (chunk cw) (chunk (cw_emit_byte cw b))"
  by (simp add: cw_emit_byte_def writes_chunk.intros)

lemma syntax_error_chunk [simp]: "chunk (cw_syntax_error_at cw tok msg) = chunk cw"
  by (simp add: cw_syntax_error_at_def fprintf_stderr_def Let_def)

lemma writes_chunk_patch_jump:
  assumes "cw_patch_jump cw offset = Some cw'"
  shows "writes_chunk (chunk cw) (chunk cw')"
proof -
  from assms have rng: "0 \<le> offset" "offset + 1 < int (length (bytes (chunk cw)))"
    by (auto simp: cw_patch_jump_def Let_def split: if_splits)
  then have n: "nat offset < length (bytes (chunk cw))"
    "nat (offset + 1) < length ((bytes (chunk cw))[nat offset := b])" for b
    by auto
  have "writes_chunk (chunk cw)
      ((chunk cw)\<lparr>bytes := (bytes (chunk cw))[nat offset := b1]\<rparr>
        \<lparr>bytes := (bytes ((chunk cw)\<lparr>bytes := (bytes (chunk cw))[nat offset := b1]\<rparr>))
            [nat (offset + 1) := b2]\<rparr>)" for b1 b2
    using n by (intro writes_chunk.stored writes_chunk.same_chunk) simp_all
  then have "writes_chunk (chunk cw)
      ((chunk cw)\<lparr>bytes := (bytes (chunk cw))[nat offset := b1, nat (offset + 1) := b2]\<rparr>)"
    for b1 b2
    by simp
  with assms show ?thesis
    unfolding cw_patch_jump_writes [OF rng] by auto
qed

lemma writes_chunk_make_constant:
  "writes_chunk (chunk cw) (chunk (snd (cw_make_constant cw v)))"
  "writes_chunk (chunk cw) (chunk (snd (cw_make_constant_v2 cw v)))"
proof -
  have "writes_chunk (chunk cw) ((chunk cw)\<lparr>constants := k, const_len := n\<rparr>)" for k n
    by (intro writes_chunk.pooled writes_chunk.same_chunk)
  then show "writes_chunk (chunk cw) (chunk (snd (cw_make_constant cw v)))"
    by (simp add: cw_make_constant_def cw_chunk_add_constant_def Let_def)
  have "writes_chunk (chunk cw)
     ((chunk cw)\<lparr>constants := k, const_len := const_len (chunk cw)\<rparr>)" for k
    by (intro writes_chunk.pooled writes_chunk.same_chunk)
  moreover have "writes_chunk (chunk cw)
     ((chunk cw)\<lparr>constants := k, const_len := n\<rparr>)" for k n
    by (intro writes_chunk.pooled writes_chunk.same_chunk)
  ultimately show "writes_chunk (chunk cw) (chunk (snd (cw_make_constant_v2 cw v)))"
    by (simp add: cw_make_constant_v2_def Let_def)
qed

lemma cw_compile_loop_writes_aux:
  assumes "cw_compile_loop ps cw = Some cw'"
  shows "parser_writes_chunk ps \<longrightarrow> writes_chunk (chunk cw) (chunk cw')"
  using assms
proof (induct rule: cw_compile_loop.raw_induct [rotated 1, consumes 1, case_names turn])
  case (turn loop ps cw cw')
  note IH = turn(1)
  note body = turn(2)
  show ?case
  proof
    assume ps: "parser_writes_chunk ps"
    from body obtain m cw1 where mt: "cw_match ps cw TOKEN_EOF = Some (m, cw1)"
      by (auto split: Option.bind_splits)
    with ps have w1: "writes_chunk (chunk cw) (chunk cw1)"
      by (auto simp: parser_writes_chunk_def)
    show "writes_chunk (chunk cw) (chunk cw')"
    proof (cases m)
      case True
      with body mt w1 show ?thesis by simp
    next
      case False
      with body mt obtain cw2 where d: "cw_parse_declaration ps cw1 = Some cw2"
        and l: "loop ps cw2 = Some cw'"
        by (auto split: Option.bind_splits)
      from ps d have "writes_chunk (chunk cw1) (chunk cw2)"
        by (auto simp: parser_writes_chunk_def)
      moreover from IH [OF l] ps have "writes_chunk (chunk cw2) (chunk cw')"
        by simp
      ultimately show ?thesis
        using w1 by (blast intro: writes_chunk_trans)
    qed
  qed
qed

lemma cw_compile_loop_writes:
  "cw_compile_loop ps cw = Some cw' \<Longrightarrow> parser_writes_chunk ps \<Longrightarrow>
     writes_chunk (chunk cw) (chunk cw')"
  using cw_compile_loop_writes_aux by blast

lemma toy_parser_writes_chunk: "parser_writes_chunk toy_parser"
proof -
  have "writes_chunk (chunk cw) (chunk (cw_emit_bytes cw a b))" for cw a b
    unfolding cw_emit_bytes_def
    by (rule writes_chunk_trans [OF writes_chunk_emit_byte writes_chunk_emit_byte])
  from this [of "cw\<lparr>previous := p, current := q\<rparr>" for cw p q]
  show ?thesis
    by (simp add: parser_writes_chunk_def toy_parser_def writes_chunk.same_chunk)
qed

text \<open>
  C7. When \<^verbatim>\<open>cw_compile\<close> returns true, the last byte of the chunk is \<open>OP_RETURN\<close> and the
  chunk has as many lines as bytes. The chunk handed to \<^verbatim>\<open>cw_compile\<close> has as many lines
  as bytes (the initialised chunk of \<^verbatim>\<open>cw_interpret\<close> has none of either), and the parser
  writes the chunk through the operations of compiler.c.
\<close>

theorem compile_success_ends_with_return:
  assumes "cw_compile ps cw src c = Some (True, cw')"
    and "parser_writes_chunk ps"
    and "length (bytes c) = length (lines c)"
  shows "bytes (chunk cw') \<noteq> [] \<and> last (bytes (chunk cw')) = OP_RETURN \<and>
         length (bytes (chunk cw')) = length (lines (chunk cw')) \<and> \<not> error cw'"
proof -
  let ?cw2 = "cw\<lparr>current := (current cw)\<lparr>type_tok := TOKEN_NULL, start := src, end_tok := src, line := 1\<rparr>\<rparr>
      \<lparr>chunk := c, locals := [], scope_depth := 0, error := False, panic := False\<rparr>"
  from assms(1) obtain cw3 cw4 where a: "cw_advance ps ?cw2 = Some cw3"
    and l: "cw_compile_loop ps cw3 = Some cw4"
    and e: "cw' = cw_compiler_end cw4" and ok: "\<not> error (cw_compiler_end cw4)"
    by (auto simp: cw_compile_def Let_def split: Option.bind_splits)
  from assms(2) have "cw_advance ps x = Some y \<Longrightarrow> writes_chunk (chunk x) (chunk y)"
    for x y
    by (simp add: parser_writes_chunk_def)
  from this [OF a] have "writes_chunk c (chunk cw3)"
    by simp
  moreover from l assms(2) have "writes_chunk (chunk cw3) (chunk cw4)"
    by (rule cw_compile_loop_writes)
  ultimately have "writes_chunk c (chunk cw4)"
    by (blast intro: writes_chunk_trans)
  from writes_chunk_parallel [OF this assms(3)]
  have "length (bytes (chunk cw4)) = length (lines (chunk cw4))" .
  with e ok show ?thesis
    by (simp add: cw_compiler_end_def cw_emit_byte_def cw_chunk_write_def)
qed

theorem compile_success_ends_with_return_witness:
  "map_option fst (cw_compile toy_parser cw_init ''ab'' cw_chunk_init) = Some True \<and>
   last (bytes (chunk (snd (the (cw_compile toy_parser cw_init ''ab'' cw_chunk_init))))) = OP_RETURN \<and>
   length (bytes (chunk (snd (the (cw_compile toy_parser cw_init ''ab'' cw_chunk_init)))))
     = length (lines (chunk (snd (the (cw_compile toy_parser cw_init ''ab'' cw_chunk_init)))))"
proof -
  have "\<exists>cw'. cw_compile toy_parser cw_init ''ab'' cw_chunk_init = Some (True, cw')"
    by (simp add: cw_compile_def cw_compile_loop.simps toy_parser_def cw_init_def Let_def
        cw_compiler_end_def cw_emit_bytes_def cw_emit_byte_def)
  then obtain cw' where e: "cw_compile toy_parser cw_init ''ab'' cw_chunk_init = Some (True, cw')"
    by blast
  have l: "length (bytes cw_chunk_init) = length (lines cw_chunk_init)"
    by (simp add: cw_chunk_init_def)
  from compile_success_ends_with_return [OF e toy_parser_writes_chunk l] show ?thesis
    by (simp add: e)
qed

section \<open>Running a chunk\<close>

lemma READ_BYTE_at:
  "ip cw < length (bytes (chunk cw)) \<Longrightarrow> bytes (chunk cw) ! ip cw = i \<Longrightarrow>
     READ_BYTE cw = Some (i, cw\<lparr>ip := ip cw + 1\<rparr>)"
  by (simp add: READ_BYTE_def)

lemma cw_run_step_OP_ADD:
  "ip cw < length (bytes (chunk cw)) \<Longrightarrow> bytes (chunk cw) ! ip cw = OP_ADD \<Longrightarrow>
     cw_run_step fp cw = op_add fp (cw\<lparr>ip := ip cw + 1\<rparr>)"
  by (simp add: cw_run_step_def READ_BYTE_at opcode_defs)

lemma peek_two:
  "stack cw = st @ [a, b] \<Longrightarrow> cw_peek_stack cw 0 = Some b \<and> cw_peek_stack cw 1 = Some a"
  by (simp add: cw_peek_stack_def nth_append)

lemma pop_two:
  "stack cw = st @ [a, b] \<Longrightarrow>
     cw_pop_stack cw = Some (b, cw\<lparr>stack := st @ [a]\<rparr>) \<and>
     cw_pop_stack (cw\<lparr>stack := st @ [a]\<rparr>) = Some (a, cw\<lparr>stack := st\<rparr>)"
  by (simp add: cw_pop_stack_def nth_append butlast_append)

lemma cw_str_concat_interned:
  assumes "a < length (objects cw)" and "b < length (objects cw)"
  shows "case cw_str_concat cw a b of
           None \<Rightarrow> False
         | Some (r, cw') \<Rightarrow>
             strings cw' (objects cw ! a @ objects cw ! b) = Some r \<and>
             cw' = cw\<lparr>objects := objects cw', strings := strings cw'\<rparr> \<and>
             (\<forall>r0. strings cw (objects cw ! a @ objects cw ! b) = Some r0 \<longrightarrow> r = r0 \<and> cw' = cw) \<and>
             (intern_ok cw \<longrightarrow>
                intern_ok cw' \<and> r < length (objects cw') \<and>
                objects cw' ! r = objects cw ! a @ objects cw ! b)"
  using assms
  by (auto simp: cw_str_concat_def Let_def intern_ok_def nth_append less_Suc_eq
      split: option.splits)

text \<open>
  C3. \<open>OP_ADD\<close> with the two values \<open>a\<close> (below) and \<open>b\<close> (on top) on the stack. Two
  numbers are popped and the sum the machine computes for them is pushed. Two strings are
  popped and the interned concatenation is pushed: the object the intern table holds for
  the concatenated bytes, which is the one already interned when there is one, and whose
  bytes are the concatenation when the intern table is sound. In every other case the
  runtime error is reported, the stack is emptied, and \<^verbatim>\<open>cw_run\<close> returns
  \<open>INTERPRET_RUNTIME_ERROR\<close> from this instruction.
\<close>

theorem op_add_cases:
  assumes "ip cw < length (bytes (chunk cw))" and "bytes (chunk cw) ! ip cw = OP_ADD"
    and "ip cw < length (lines (chunk cw))"
    and "stack cw = st @ [a, b]" and "stack_index cw \<le> CW_STACK_MAX"
  shows "(\<forall>x y. a = VAL_FLOAT x \<and> b = VAL_FLOAT y \<longrightarrow>
            cw_run_step fp cw =
              Some (Continue (cw\<lparr>ip := ip cw + 1, stack := st @ [VAL_FLOAT (fp_add fp x y)]\<rparr>))) \<and>
         (\<forall>ra rb. a = VAL_OBJECT ra \<and> b = VAL_OBJECT rb \<and>
              ra < length (objects cw) \<and> rb < length (objects cw) \<longrightarrow>
            (case cw_run_step fp cw of
               Some (Continue cw') \<Rightarrow>
                 (case last (stack cw') of
                    VAL_OBJECT r \<Rightarrow>
                      stack cw' = st @ [VAL_OBJECT r] \<and>
                      strings cw' (objects cw ! ra @ objects cw ! rb) = Some r \<and>
                      cw' = cw\<lparr>ip := ip cw + 1, stack := stack cw', objects := objects cw',
                                strings := strings cw'\<rparr> \<and>
                      (\<forall>r0. strings cw (objects cw ! ra @ objects cw ! rb) = Some r0 \<longrightarrow>
                         r = r0 \<and> objects cw' = objects cw \<and> strings cw' = strings cw) \<and>
                      (intern_ok cw \<longrightarrow>
                         intern_ok cw' \<and> r < length (objects cw') \<and>
                         objects cw' ! r = objects cw ! ra @ objects cw ! rb)
                  | _ \<Rightarrow> False)
             | _ \<Rightarrow> False)) \<and>
         (\<not> (IS_STRING a \<and> IS_STRING b) \<and> \<not> (IS_NUMBER a \<and> IS_NUMBER b) \<longrightarrow>
            (case cw_run_step fp cw of
               Some (Return result cw') \<Rightarrow>
                 result = INTERPRET_RUNTIME_ERROR \<and> stack cw' = [] \<and>
                 cw_run fp cw = Some (INTERPRET_RUNTIME_ERROR, cw')
             | _ \<Rightarrow> False))"
proof (intro conjI allI impI)
  let ?cw = "cw\<lparr>ip := ip cw + 1\<rparr>"
  have step: "cw_run_step fp cw = op_add fp ?cw"
    using assms(1,2) by (rule cw_run_step_OP_ADD)
  have st: "stack ?cw = st @ [a, b]"
    using assms(4) by simp
  note pk = peek_two [OF st]
  note pp = pop_two [OF st]
  have room: "length st < CW_STACK_MAX"
    using assms(4,5) by simp
  {
    fix x y
    assume "a = VAL_FLOAT x \<and> b = VAL_FLOAT y"
    then show "cw_run_step fp cw =
        Some (Continue (cw\<lparr>ip := ip cw + 1, stack := st @ [VAL_FLOAT (fp_add fp x y)]\<rparr>))"
      using pk pp room
      by (simp add: step op_add_def both_on_top_def cw_push_stack_def MAKE_NUMBER_def)
  next
    fix ra rb
    assume h: "a = VAL_OBJECT ra \<and> b = VAL_OBJECT rb \<and>
                ra < length (objects cw) \<and> rb < length (objects cw)"
    let ?c2 = "?cw\<lparr>stack := st\<rparr>"
    have "ra < length (objects ?c2)" "rb < length (objects ?c2)"
      using h by simp_all
    from cw_str_concat_interned [OF this]
    obtain r c3 where cc: "cw_str_concat ?c2 ra rb = Some (r, c3)"
      and p1: "strings c3 (objects cw ! ra @ objects cw ! rb) = Some r"
      and p2: "c3 = ?c2\<lparr>objects := objects c3, strings := strings c3\<rparr>"
      and p3: "\<forall>r0. strings cw (objects cw ! ra @ objects cw ! rb) = Some r0 \<longrightarrow> r = r0 \<and> c3 = ?c2"
      and p4: "intern_ok ?c2 \<longrightarrow> intern_ok c3 \<and> r < length (objects c3) \<and>
                objects c3 ! r = objects cw ! ra @ objects cw ! rb"
      by (auto split: option.splits)
    have s3: "stack c3 = st" "ip c3 = ip cw + 1"
      by (subst p2, simp)+
    have res: "cw_run_step fp cw = Some (Continue (c3\<lparr>stack := st @ [VAL_OBJECT r]\<rparr>))"
      using pk pp room h cc s3
      by (simp add: step op_add_def both_on_top_def cw_push_stack_def MAKE_OBJECT_def)
    have io: "intern_ok ?c2 = intern_ok cw"
      "intern_ok (c3\<lparr>stack := st @ [VAL_OBJECT r]\<rparr>) = intern_ok c3"
      by (simp_all add: intern_ok_def)
    have eq: "c3\<lparr>stack := st @ [VAL_OBJECT r]\<rparr> =
        cw\<lparr>ip := ip cw + 1, stack := st @ [VAL_OBJECT r], objects := objects c3, strings := strings c3\<rparr>"
      by (subst p2) simp
    show "case cw_run_step fp cw of
            Some (Continue cw') \<Rightarrow>
              (case last (stack cw') of
                 VAL_OBJECT r \<Rightarrow>
                   stack cw' = st @ [VAL_OBJECT r] \<and>
                   strings cw' (objects cw ! ra @ objects cw ! rb) = Some r \<and>
                   cw' = cw\<lparr>ip := ip cw + 1, stack := stack cw', objects := objects cw',
                             strings := strings cw'\<rparr> \<and>
                   (\<forall>r0. strings cw (objects cw ! ra @ objects cw ! rb) = Some r0 \<longrightarrow>
                      r = r0 \<and> objects cw' = objects cw \<and> strings cw' = strings cw) \<and>
                   (intern_ok cw \<longrightarrow>
                      intern_ok cw' \<and> r < length (objects cw') \<and>
                      objects cw' ! r = objects cw ! ra @ objects cw ! rb)
               | _ \<Rightarrow> False)
          | _ \<Rightarrow> False"
      using p1 p3 p4 io eq by (simp add: res)
  next
    assume h: "\<not> (IS_STRING a \<and> IS_STRING b) \<and> \<not> (IS_NUMBER a \<and> IS_NUMBER b)"
    have ln: "1 \<le> ip ?cw \<and> ip ?cw - 1 < length (lines (chunk ?cw))"
      using assms(3) by simp
    have "op_add fp ?cw =
        runtime_error_return ?cw ''Operands must be two numbers or two strings.''"
      using pk h by (auto simp: op_add_def both_on_top_def)
    moreover obtain cw' where e: "cw_runtime_error ?cw ''Operands must be two numbers or two strings.'' [] = Some cw'"
      and s0: "stack cw' = []"
      using ln by (simp add: cw_runtime_error_def Let_def cw_reset_stack_def fprintf_stderr_def)
    ultimately have res: "cw_run_step fp cw = Some (Return INTERPRET_RUNTIME_ERROR cw')"
      by (simp add: step runtime_error_return_def)
    show "case cw_run_step fp cw of
            Some (Return result cw') \<Rightarrow>
              result = INTERPRET_RUNTIME_ERROR \<and> stack cw' = [] \<and>
              cw_run fp cw = Some (INTERPRET_RUNTIME_ERROR, cw')
          | _ \<Rightarrow> False"
      using s0 by (subst cw_run.simps) (simp add: res)
  }
qed

theorem op_add_cases_witness:
  "cw_run_step fpu_example cw_add_numbers =
     Some (Continue (cw_add_numbers\<lparr>ip := 1, stack := [VAL_FLOAT 3]\<rparr>)) \<and>
   (case cw_run_step fpu_example cw_add_strings of
      Some (Continue cw') \<Rightarrow>
        (case last (stack cw') of
           VAL_OBJECT r \<Rightarrow>
             stack cw' = [VAL_OBJECT r] \<and> strings cw' ''foobar'' = Some r \<and>
             objects cw' ! r = ''foobar''
         | _ \<Rightarrow> False)
    | _ \<Rightarrow> False) \<and>
   (case cw_run_step fpu_example cw_add_mixed of
      Some (Return result cw') \<Rightarrow>
        result = INTERPRET_RUNTIME_ERROR \<and> stack cw' = [] \<and>
        cw_run fpu_example cw_add_mixed = Some (INTERPRET_RUNTIME_ERROR, cw')
    | _ \<Rightarrow> False)"
proof -
  have n: "ip cw_add_numbers < length (bytes (chunk cw_add_numbers))"
    "bytes (chunk cw_add_numbers) ! ip cw_add_numbers = OP_ADD"
    "ip cw_add_numbers < length (lines (chunk cw_add_numbers))"
    "stack cw_add_numbers = [] @ [VAL_FLOAT 1, VAL_FLOAT 2]"
    "stack_index cw_add_numbers \<le> CW_STACK_MAX"
    by (simp_all add: cw_add_numbers_def cw_init_def CW_STACK_MAX_def)
  have s: "ip cw_add_strings < length (bytes (chunk cw_add_strings))"
    "bytes (chunk cw_add_strings) ! ip cw_add_strings = OP_ADD"
    "ip cw_add_strings < length (lines (chunk cw_add_strings))"
    "stack cw_add_strings = [] @ [VAL_OBJECT 0, VAL_OBJECT 1]"
    "stack_index cw_add_strings \<le> CW_STACK_MAX"
    by (simp_all add: cw_add_strings_def cw_init_def CW_STACK_MAX_def)
  have m: "ip cw_add_mixed < length (bytes (chunk cw_add_mixed))"
    "bytes (chunk cw_add_mixed) ! ip cw_add_mixed = OP_ADD"
    "ip cw_add_mixed < length (lines (chunk cw_add_mixed))"
    "stack cw_add_mixed = [] @ [VAL_OBJECT 0, VAL_FLOAT 1]"
    "stack_index cw_add_mixed \<le> CW_STACK_MAX"
    by (simp_all add: cw_add_mixed_def cw_init_def CW_STACK_MAX_def)
  have io: "intern_ok cw_add_strings"
    by (auto simp: intern_ok_def cw_add_strings_def split: if_splits)
  have ob: "objects cw_add_strings = [''foo'', ''bar'']"
    by (simp add: cw_add_strings_def)
  have c1: "cw_run_step fpu_example cw_add_numbers =
      Some (Continue (cw_add_numbers\<lparr>ip := 1, stack := [VAL_FLOAT 3]\<rparr>))"
    using op_add_cases [OF n, of fpu_example]
    by (simp add: fpu_example_def cw_add_numbers_def cw_init_def)
  have c2: "case cw_run_step fpu_example cw_add_strings of
      Some (Continue cw') \<Rightarrow>
        (case last (stack cw') of
           VAL_OBJECT r \<Rightarrow>
             stack cw' = [VAL_OBJECT r] \<and> strings cw' ''foobar'' = Some r \<and>
             objects cw' ! r = ''foobar''
         | _ \<Rightarrow> False)
    | _ \<Rightarrow> False"
    using op_add_cases [OF s, of fpu_example] io ob
    by (auto split: option.splits step.splits cwValue.splits)
  have c3: "case cw_run_step fpu_example cw_add_mixed of
      Some (Return result cw') \<Rightarrow>
        result = INTERPRET_RUNTIME_ERROR \<and> stack cw' = [] \<and>
        cw_run fpu_example cw_add_mixed = Some (INTERPRET_RUNTIME_ERROR, cw')
    | _ \<Rightarrow> False"
    using op_add_cases [OF m, of fpu_example] by simp
  from c1 c2 c3 show ?thesis by blast
qed

subsection \<open>Stack overflow\<close>

lemma cw_run_step_OP_NULL:
  assumes "ip cw < length (bytes (chunk cw))" and "bytes (chunk cw) ! ip cw = OP_NULL"
  shows "cw_run_step fp cw = map_option Continue (cw_push_stack (cw\<lparr>ip := ip cw + 1\<rparr>) MAKE_NULL)"
  using assms by (simp add: cw_run_step_def READ_BYTE_at opcode_defs)

lemma cw_run_OP_NULL_room:
  assumes "ip cw < length (bytes (chunk cw))" and "bytes (chunk cw) ! ip cw = OP_NULL"
    and "stack_index cw < CW_STACK_MAX"
  shows "cw_run fp cw = cw_run fp (cw\<lparr>ip := ip cw + 1, stack := stack cw @ [VAL_NULL]\<rparr>)"
  using assms
  by (subst cw_run.simps) (simp add: cw_run_step_OP_NULL cw_push_stack_def MAKE_NULL_def)

lemma cw_run_nulls:
  assumes "\<forall>i<k. bytes (chunk cw) ! (ip cw + i) = OP_NULL"
    and "ip cw + k \<le> length (bytes (chunk cw))"
    and "stack_index cw + k \<le> CW_STACK_MAX"
  shows "cw_run fp cw = cw_run fp (cw\<lparr>ip := ip cw + k, stack := stack cw @ replicate k VAL_NULL\<rparr>)"
  using assms
proof (induction k arbitrary: cw)
  case 0
  then show ?case by simp
next
  case (Suc k)
  let ?cw = "cw\<lparr>ip := ip cw + 1, stack := stack cw @ [VAL_NULL]\<rparr>"
  from Suc.prems have "bytes (chunk cw) ! (ip cw + 0) = OP_NULL"
    by blast
  with Suc.prems have "cw_run fp cw = cw_run fp ?cw"
    by (intro cw_run_OP_NULL_room) simp_all
  also have "\<dots> = cw_run fp (?cw\<lparr>ip := ip ?cw + k, stack := stack ?cw @ replicate k VAL_NULL\<rparr>)"
  proof (rule Suc.IH)
    show "\<forall>i<k. bytes (chunk ?cw) ! (ip ?cw + i) = OP_NULL"
      using Suc.prems(1) by (auto dest: spec [where x = "Suc _"])
  qed (use Suc.prems in simp_all)
  finally show ?case
    by (simp add: replicate_app_Cons_same)
qed

text \<open>
  The push that finds the stack full: the error is reported and the stack reset, and the
  loop goes on with the next instruction.
\<close>

lemma cw_run_OP_NULL_full:
  assumes "ip cw < length (bytes (chunk cw))" and "bytes (chunk cw) ! ip cw = OP_NULL"
    and "ip cw < length (lines (chunk cw))"
    and "stack_index cw \<ge> CW_STACK_MAX"
  shows "cw_run fp cw =
     cw_run fp (cw\<lparr>ip := ip cw + 1,
       stderr := stderr cw @
         [Printf ''Stack overflow'' [], Printf [CHR 0x0A] [],
          Printf (''[line %d] in script'' @ [CHR 0x0A]) [ArgInt (lines (chunk cw) ! ip cw)]],
       stack := []\<rparr>)"
  using assms
  by (subst cw_run.simps)
    (simp add: cw_run_step_OP_NULL cw_push_stack_def cw_runtime_error_def fprintf_stderr_def
      cw_reset_stack_def Let_def)

text \<open>Where the run loop itself finds the error it does return at once.\<close>

lemma cw_run_step_OP_NEGATE:
  "ip cw < length (bytes (chunk cw)) \<Longrightarrow> bytes (chunk cw) ! ip cw = OP_NEGATE \<Longrightarrow>
     cw_run_step fp cw = op_negate fp (cw\<lparr>ip := ip cw + 1\<rparr>)"
  by (simp add: cw_run_step_def READ_BYTE_at opcode_defs)

lemma negate_non_number_returns:
  assumes "ip cw < length (bytes (chunk cw))" and "bytes (chunk cw) ! ip cw = OP_NEGATE"
    and "ip cw < length (lines (chunk cw))"
    and "stack cw = st @ [v]" and "\<not> IS_NUMBER v"
  shows "cw_run fp cw =
     Some (INTERPRET_RUNTIME_ERROR,
       cw\<lparr>ip := ip cw + 1,
         stderr := stderr cw @
           [Printf ''Operand must be a number.'' [], Printf [CHR 0x0A] [],
            Printf (''[line %d] in script'' @ [CHR 0x0A]) [ArgInt (lines (chunk cw) ! ip cw)]],
         stack := []\<rparr>)"
  using assms
  by (subst cw_run.simps)
    (simp add: cw_run_step_OP_NEGATE op_negate_def cw_peek_stack_def runtime_error_return_def
      cw_runtime_error_def fprintf_stderr_def cw_reset_stack_def Let_def)

text \<open>
  C1. The 257th push finds 256 values on the stack. \<^verbatim>\<open>cw_push_stack\<close> reports "Stack
  overflow" and resets the stack, but \<^verbatim>\<open>cw_run\<close> does not stop: it reads the next opcode,
  \<open>OP_RETURN\<close>, and the run ends with \<open>INTERPRET_OK\<close>, not with the runtime error.
\<close>

theorem stack_overflow_run_goes_on:
  "cw_run fpu_example cw_push_257 =
     Some (INTERPRET_OK,
           cw_push_257\<lparr>ip := 258,
             stderr := [Printf ''Stack overflow'' [], Printf [CHR 0x0A] [],
                        Printf (''[line %d] in script'' @ [CHR 0x0A]) [ArgInt 1]]\<rparr>)"
proof -
  have "cw_run fpu_example cw_push_257 =
      cw_run fpu_example (cw_push_257\<lparr>ip := 256, stack := replicate 256 VAL_NULL\<rparr>)"
    using cw_run_nulls [of 256 cw_push_257 fpu_example]
    by (simp add: cw_push_257_def cw_init_def cw_chunk_init_def CW_STACK_MAX_def nth_append)
  also have "\<dots> = cw_run fpu_example (cw_push_257\<lparr>ip := 257, stack := [],
      stderr := [Printf ''Stack overflow'' [], Printf [CHR 0x0A] [],
                 Printf (''[line %d] in script'' @ [CHR 0x0A]) [ArgInt 1]]\<rparr>)"
    by (subst cw_run_OP_NULL_full)
      (simp_all add: cw_push_257_def cw_init_def cw_chunk_init_def CW_STACK_MAX_def nth_append)
  also have "\<dots> = Some (INTERPRET_OK, cw_push_257\<lparr>ip := 258,
      stderr := [Printf ''Stack overflow'' [], Printf [CHR 0x0A] [],
                 Printf (''[line %d] in script'' @ [CHR 0x0A]) [ArgInt 1]]\<rparr>)"
    by (subst cw_run.simps)
      (simp add: cw_run_step_def READ_BYTE_def cw_push_257_def cw_init_def cw_chunk_init_def
        nth_append opcode_defs)
  finally show ?thesis .
qed

text \<open>
  C5. The runtime error raised inside \<^verbatim>\<open>cw_push_stack\<close> resets the stack, but
  \<^verbatim>\<open>cw_run\<close> does not return: the bytecode after the failed push is executed (it prints
  \<^verbatim>\<open>true\<close>) and the run ends with \<open>INTERPRET_OK\<close>.
\<close>

theorem runtime_error_in_push_does_not_return:
  "cw_run fpu_example cw_push_257_print =
     Some (INTERPRET_OK,
           cw_push_257_print\<lparr>ip := 260,
             stdout := [Printf ''true'' [], Printf [CHR 0x0A] []],
             stderr := [Printf ''Stack overflow'' [], Printf [CHR 0x0A] [],
                        Printf (''[line %d] in script'' @ [CHR 0x0A]) [ArgInt 1]]\<rparr>)"
proof -
  have "cw_run fpu_example cw_push_257_print =
      cw_run fpu_example (cw_push_257_print\<lparr>ip := 256, stack := replicate 256 VAL_NULL\<rparr>)"
    using cw_run_nulls [of 256 cw_push_257_print fpu_example]
    by (simp add: cw_push_257_print_def cw_init_def cw_chunk_init_def CW_STACK_MAX_def nth_append)
  also have "\<dots> = cw_run fpu_example (cw_push_257_print\<lparr>ip := 257, stack := [],
      stderr := [Printf ''Stack overflow'' [], Printf [CHR 0x0A] [],
                 Printf (''[line %d] in script'' @ [CHR 0x0A]) [ArgInt 1]]\<rparr>)"
    by (subst cw_run_OP_NULL_full)
      (simp_all add: cw_push_257_print_def cw_init_def cw_chunk_init_def CW_STACK_MAX_def
        nth_append)
  also have "\<dots> = cw_run fpu_example (cw_push_257_print\<lparr>ip := 258, stack := [VAL_BOOL True],
      stderr := [Printf ''Stack overflow'' [], Printf [CHR 0x0A] [],
                 Printf (''[line %d] in script'' @ [CHR 0x0A]) [ArgInt 1]]\<rparr>)"
    by (subst cw_run.simps)
      (simp add: cw_run_step_def READ_BYTE_def cw_push_stack_def MAKE_BOOL_def
        cw_push_257_print_def cw_init_def cw_chunk_init_def CW_STACK_MAX_def nth_append
        opcode_defs)
  also have "\<dots> = cw_run fpu_example (cw_push_257_print\<lparr>ip := 259,
      stdout := [Printf ''true'' [], Printf [CHR 0x0A] []],
      stderr := [Printf ''Stack overflow'' [], Printf [CHR 0x0A] [],
                 Printf (''[line %d] in script'' @ [CHR 0x0A]) [ArgInt 1]]\<rparr>)"
    by (subst cw_run.simps)
      (simp add: cw_run_step_def READ_BYTE_def cw_pop_stack_def cw_print_value_def printf_def
        cw_push_257_print_def cw_init_def cw_chunk_init_def nth_append opcode_defs)
  also have "\<dots> = Some (INTERPRET_OK, cw_push_257_print\<lparr>ip := 260,
      stdout := [Printf ''true'' [], Printf [CHR 0x0A] []],
      stderr := [Printf ''Stack overflow'' [], Printf [CHR 0x0A] [],
                 Printf (''[line %d] in script'' @ [CHR 0x0A]) [ArgInt 1]]\<rparr>)"
    by (subst cw_run.simps)
      (simp add: cw_run_step_def READ_BYTE_def cw_push_257_print_def cw_init_def
        cw_chunk_init_def nth_append opcode_defs)
  finally show ?thesis .
qed

text \<open>
  On the bytecode of the nested expression the run goes on after the failed push as well:
  the first comparison pops from the emptied stack, below the bottom of the array.
\<close>

lemma nested_operands_run_into_underflow:
  "cw_run fpu_example cw_nested_257 = None"
proof -
  have "cw_run fpu_example cw_nested_257 =
      cw_run fpu_example (cw_nested_257\<lparr>ip := 256, stack := replicate 256 VAL_NULL\<rparr>)"
    using cw_run_nulls [of 256 cw_nested_257 fpu_example]
    by (simp add: cw_nested_257_def cw_init_def cw_chunk_init_def CW_STACK_MAX_def nth_append)
  also have "\<dots> = cw_run fpu_example (cw_nested_257\<lparr>ip := 257, stack := [],
      stderr := [Printf ''Stack overflow'' [], Printf [CHR 0x0A] [],
                 Printf (''[line %d] in script'' @ [CHR 0x0A]) [ArgInt 1]]\<rparr>)"
    by (subst cw_run_OP_NULL_full)
      (simp_all add: cw_nested_257_def cw_init_def cw_chunk_init_def CW_STACK_MAX_def nth_append)
  also have "\<dots> = None"
    by (subst cw_run.simps)
      (simp add: cw_run_step_def READ_BYTE_def cw_pop_stack_def cw_nested_257_def cw_init_def
        cw_chunk_init_def nth_append opcode_defs)
  finally show ?thesis .
qed

end
